theory Spec2Isabelle
  imports Complex_Main
begin

section \<open>array2sh: data model\<close>

text \<open>
  A shallow embedding of \<^verbatim>\<open>examples/array2sh/src/array2sh.c\<close>.

  C \<^verbatim>\<open>int\<close> values are modelled as \<^typ>\<open>int\<close>; the one product of caller-supplied
  integers, \<^verbatim>\<open>(order+1)*(order+1)\<close>, is written with 32-bit two's-complement
  wrap-around. \<^verbatim>\<open>float\<close> samples are modelled as \<^typ>\<open>real\<close> (rounding is not
  modelled: the statements below are about which operation is applied to which sample).
  A buffer is a function from its indices to its content, so that what a call leaves
  unwritten keeps the value it had before the call.
\<close>

datatype CH_ORDER = CH_ACN | CH_FUMA

datatype NORM_TYPES = NORM_N3D | NORM_SN3D | NORM_FUMA

record complexVector =
  re :: "nat \<Rightarrow> real"
  im :: "nat \<Rightarrow> real"

record arrayPars =
  Q :: int
  newQ :: int
  r :: real
  R :: real
  arrayType :: int
  weightType :: int
  sensorCoords_rad :: "nat \<Rightarrow> nat \<Rightarrow> real"
  sensorCoords_deg :: "nat \<Rightarrow> nat \<Rightarrow> real"

record 'h array2sh_data =
  arraySpecs :: arrayPars
  hSTFT :: "'h option"
  STFTInputFrameTF :: "nat \<Rightarrow> complexVector"
  STFTOutputFrameTF :: "nat \<Rightarrow> complexVector"
  tempHopFrameTD_in :: "nat \<Rightarrow> nat \<Rightarrow> real"
  tempHopFrameTD_out :: "nat \<Rightarrow> nat \<Rightarrow> real"
  inputFrameTD :: "nat \<Rightarrow> nat \<Rightarrow> real"
  inputframeTF :: "nat \<Rightarrow> nat \<Rightarrow> nat \<Rightarrow> complex"
  SHframeTF :: "nat \<Rightarrow> nat \<Rightarrow> nat \<Rightarrow> complex"
  W :: "nat \<Rightarrow> nat \<Rightarrow> nat \<Rightarrow> complex"
  fs :: int
  freqVector :: "nat \<Rightarrow> real"
  filterType :: int
  regPar :: real
  chOrdering :: CH_ORDER
  norm' :: NORM_TYPES
  c :: real
  gain_dB :: real
  maxFreq :: real
  enableDiffEQpastAliasing :: int
  reinitTFTFLAG :: int
  reinitSHTmatrixFLAG :: int
  recalcEvalFLAG :: int
  order :: int
  new_order :: int
  nSH :: int
  new_nSH :: int
  bN :: "(nat \<Rightarrow> complex) option"
  evalReady :: int
  currentEvalIsValid :: int
  bN_modal_dB :: "nat \<Rightarrow> nat \<Rightarrow> real"
  bN_inv_dB :: "nat \<Rightarrow> nat \<Rightarrow> real"
  cSH :: "nat \<Rightarrow> real"
  lSH :: "nat \<Rightarrow> real"

text \<open>
  The constants of \<^verbatim>\<open>array2sh.h\<close> and \<^verbatim>\<open>array2sh_internal.h\<close>, which are not among
  the sources, are parameters of the model. \<open>APPLE\<close> is the preprocessor switch
  \<^verbatim>\<open>__APPLE__\<close>.
\<close>

record macros =
  HOP_SIZE :: nat
  TIME_SLOTS :: nat
  HYBRID_BANDS :: nat
  MAX_SH_ORDER :: nat
  MAX_NUM_SH_SIGNALS :: nat
  APPLE :: bool
  FILTER_TIKHONOV :: int
  MICROPHONE_ARRAY_PRESET_DEFAULT :: int
  MICROPHONE_ARRAY_PRESET_AALTO_HYDROPHONE :: int
  ARRAY2SH_ARRAY_RADIUS_MIN_VALUE :: real
  ARRAY2SH_ARRAY_RADIUS_MAX_VALUE :: real
  ARRAY2SH_BAFFLE_RADIUS_MIN_VALUE :: real
  ARRAY2SH_BAFFLE_RADIUS_MAX_VALUE :: real
  ARRAY2SH_MAX_GAIN_MIN_VALUE :: real
  ARRAY2SH_MAX_GAIN_MAX_VALUE :: real
  ARRAY2SH_SPEED_OF_SOUND_MIN_VALUE :: real
  ARRAY2SH_SPEED_OF_SOUND_MAX_VALUE :: real
  ARRAY2SH_POST_GAIN_MIN_VALUE :: real
  ARRAY2SH_POST_GAIN_MAX_VALUE :: real
  afCenterFreq44100 :: "nat \<Rightarrow> real"
  afCenterFreq48e3 :: "nat \<Rightarrow> real"

text \<open>
  Modelled from the spec: the header that defines \<^verbatim>\<open>FRAME_SIZE\<close> is missing; a full
  audio block is an integer number of hops.
\<close>

definition FRAME_SIZE :: "macros \<Rightarrow> nat" where
  "FRAME_SIZE M = TIME_SLOTS M * HOP_SIZE M"

text \<open>
  Modelled from the spec: the enumeration of encoding orders is missing; FuMa is valid
  only when the order is 1, the first order.
\<close>

definition ENCODING_ORDER_FIRST :: int where
  "ENCODING_ORDER_FIRST = 1"

text \<open>
  The external collaborators: the time-frequency transform (afSTFT), the filter-design
  engine, the diagnostics and the preset table. Each is an opaque function of what it
  is handed; the transform carries its own state in the handle.
\<close>

record 'h engines =
  afSTFTforward :: "'h option \<Rightarrow> (nat \<Rightarrow> nat \<Rightarrow> real) \<Rightarrow> (nat \<Rightarrow> complexVector)
                      \<Rightarrow> 'h option \<times> (nat \<Rightarrow> complexVector)"
  afSTFTinverse :: "'h option \<Rightarrow> (nat \<Rightarrow> complexVector) \<Rightarrow> (nat \<Rightarrow> nat \<Rightarrow> real)
                      \<Rightarrow> 'h option \<times> (nat \<Rightarrow> nat \<Rightarrow> real)"
  afSTFTreshape :: "'h option \<Rightarrow> int \<Rightarrow> int \<Rightarrow> 'h option"
  computeEncodingMatrix :: "int \<Rightarrow> arrayPars \<Rightarrow> int \<Rightarrow> real \<Rightarrow> real \<Rightarrow> int
                      \<Rightarrow> (nat \<Rightarrow> nat \<Rightarrow> nat \<Rightarrow> complex) \<times> (nat \<Rightarrow> nat \<Rightarrow> real) \<times> (nat \<Rightarrow> nat \<Rightarrow> real)"
  evaluateDiagnostics :: "(nat \<Rightarrow> nat \<Rightarrow> nat \<Rightarrow> complex) \<Rightarrow> int \<Rightarrow> arrayPars
                      \<Rightarrow> (nat \<Rightarrow> real) \<times> (nat \<Rightarrow> real)"
  initArray :: "arrayPars \<Rightarrow> int \<Rightarrow> int \<Rightarrow> int \<Rightarrow> arrayPars \<times> int"

section \<open>Integer and buffer primitives\<close>

text \<open>A value reduced to the range of a 32-bit \<^verbatim>\<open>int\<close>.\<close>

definition int32 :: "int \<Rightarrow> int" where
  "int32 x = (x + 2147483648) mod 4294967296 - 2147483648"

text \<open>\<^verbatim>\<open>(order+1)*(order+1)\<close> on 32-bit integers.\<close>

definition order2nSH :: "int \<Rightarrow> int" where
  "order2nSH n = int32 (int32 (n + 1) * int32 (n + 1))"

text \<open>\<^verbatim>\<open>CLAMP(a, lo, hi)\<close> of saf\_utilities.\<close>

definition CLAMP :: "real \<Rightarrow> real \<Rightarrow> real \<Rightarrow> real" where
  "CLAMP a lo hi = max lo (min hi a)"

text \<open>
  \<^verbatim>\<open>utility_svvcopy(src, len, &dst[off])\<close>: \<open>len\<close> samples of \<open>src\<close> written to \<open>dst\<close>
  from index \<open>off\<close>.
\<close>

definition utility_svvcopy :: "(nat \<Rightarrow> real) \<Rightarrow> nat \<Rightarrow> (nat \<Rightarrow> real) \<Rightarrow> nat \<Rightarrow> (nat \<Rightarrow> real)" where
  "utility_svvcopy src len dst off =
     (\<lambda>i. if off \<le> i \<and> i < off + len then src (i - off) else dst i)"

text \<open>\<^verbatim>\<open>memset(&dst[off], 0, len*sizeof(float))\<close>.\<close>

definition memset0 :: "(nat \<Rightarrow> real) \<Rightarrow> nat \<Rightarrow> nat \<Rightarrow> (nat \<Rightarrow> real)" where
  "memset0 dst off len = (\<lambda>i. if off \<le> i \<and> i < off + len then 0 else dst i)"

section \<open>Reinitialisation\<close>

text \<open>
  Modelled from the spec: \<^verbatim>\<open>array2sh_initTFT\<close> (array2sh\_internal.c) is missing. It
  reshapes the transform engine for the staged sensor and channel counts and commits
  \<open>order = new_order\<close>, \<open>nSH = new_nSH\<close>, \<open>Q = newQ\<close>.
\<close>

definition array2sh_initTFT :: "'h engines \<Rightarrow> 'h array2sh_data \<Rightarrow> 'h array2sh_data" where
  "array2sh_initTFT E s =
     s\<lparr> hSTFT := afSTFTreshape E (hSTFT s) (newQ (arraySpecs s)) (new_nSH s),
        order := new_order s,
        nSH := new_nSH s,
        arraySpecs := (arraySpecs s)\<lparr> Q := newQ (arraySpecs s) \<rparr> \<rparr>"

text \<open>
  Modelled from the spec: \<^verbatim>\<open>array2sh_calculate_sht_matrix\<close> and
  \<^verbatim>\<open>array2sh_calculate_mag_curves\<close> (array2sh\_internal.c) are missing. Together they
  invoke the filter-design engine, which regenerates the per-band encoding matrix and
  the magnitude-response curves for the now-current configuration.
\<close>

definition array2sh_calculate_sht_matrix :: "'h engines \<Rightarrow> 'h array2sh_data \<Rightarrow> 'h array2sh_data" where
  "array2sh_calculate_sht_matrix E s =
     s\<lparr> W := fst (computeEncodingMatrix E (order s) (arraySpecs s) (filterType s)
                    (regPar s) (c s) (enableDiffEQpastAliasing s)) \<rparr>"

definition array2sh_calculate_mag_curves :: "'h engines \<Rightarrow> 'h array2sh_data \<Rightarrow> 'h array2sh_data" where
  "array2sh_calculate_mag_curves E s =
     (let curves = snd (computeEncodingMatrix E (order s) (arraySpecs s) (filterType s)
                    (regPar s) (c s) (enableDiffEQpastAliasing s))
      in s\<lparr> bN_modal_dB := fst curves, bN_inv_dB := snd curves \<rparr>)"

text \<open>
  Modelled from the spec: \<^verbatim>\<open>array2sh_evaluateSHTfilters\<close> (array2sh\_internal.c) is
  missing. It recomputes the spatial-correlation and level-difference diagnostics and
  sets the evaluation-ready latch.
\<close>

definition array2sh_evaluateSHTfilters :: "'h engines \<Rightarrow> 'h array2sh_data \<Rightarrow> 'h array2sh_data" where
  "array2sh_evaluateSHTfilters E s =
     (let d = evaluateDiagnostics E (W s) (order s) (arraySpecs s)
      in s\<lparr> cSH := fst d, lSH := snd d, evalReady := 1 \<rparr>)"

text \<open>The two reinitialisation steps that \<^verbatim>\<open>array2sh_process\<close> and
  \<^verbatim>\<open>array2sh_checkReInit\<close> share.\<close>

definition reinitTFT_step :: "'h engines \<Rightarrow> 'h array2sh_data \<Rightarrow> 'h array2sh_data" where
  "reinitTFT_step E s =
     (if reinitTFTFLAG s = 1
      then (array2sh_initTFT E (s\<lparr> reinitTFTFLAG := 2 \<rparr>))\<lparr> reinitTFTFLAG := 0 \<rparr>
      else s)"

definition reinitSHTmatrix_step :: "'h engines \<Rightarrow> 'h array2sh_data \<Rightarrow> 'h array2sh_data" where
  "reinitSHTmatrix_step E s =
     (if reinitSHTmatrixFLAG s = 1
      then (array2sh_calculate_mag_curves E
              (array2sh_calculate_sht_matrix E (s\<lparr> reinitSHTmatrixFLAG := 2 \<rparr>)))
             \<lparr> reinitSHTmatrixFLAG := 0 \<rparr>
      else s)"

definition recalcEval_step :: "'h engines \<Rightarrow> 'h array2sh_data \<Rightarrow> 'h array2sh_data" where
  "recalcEval_step E s =
     (if recalcEvalFLAG s = 1
      then (array2sh_evaluateSHTfilters E (s\<lparr> recalcEvalFLAG := 2 \<rparr>))\<lparr> recalcEvalFLAG := 0 \<rparr>
      else s)"

definition array2sh_checkReInit :: "'h engines \<Rightarrow> 'h array2sh_data \<Rightarrow> 'h array2sh_data" where
  "array2sh_checkReInit E s =
     recalcEval_step E (reinitSHTmatrix_step E (reinitTFT_step E s))"

section \<open>Construction and initialisation\<close>

text \<open>
  \<open>mem\<close> is the content of the freshly allocated structure: what \<^verbatim>\<open>array2sh_create\<close>
  does not assign keeps it. \<^verbatim>\<open>calloc1d\<close> clears what it allocates.
\<close>

definition array2sh_create :: "'h engines \<Rightarrow> macros \<Rightarrow> 'h array2sh_data \<Rightarrow> 'h array2sh_data" where
  "array2sh_create E M mem =
     (let s1 = mem\<lparr> filterType := FILTER_TIKHONOV M,
                    regPar := 15,
                    chOrdering := CH_ACN,
                    norm' := NORM_SN3D,
                    c := 343,
                    gain_dB := 0,
                    maxFreq := 20000 \<rparr>;
          a = initArray E (arraySpecs s1) (MICROPHONE_ARRAY_PRESET_DEFAULT M) (order s1) 1;
          s2 = s1\<lparr> arraySpecs := fst a, order := snd a, enableDiffEQpastAliasing := 1 \<rparr>;
          s3 = s2\<lparr> hSTFT := None,
                   STFTInputFrameTF := (\<lambda>ch. \<lparr> re = (\<lambda>band. 0), im = (\<lambda>band. 0) \<rparr>),
                   STFTOutputFrameTF := (\<lambda>ch. \<lparr> re = (\<lambda>band. 0), im = (\<lambda>band. 0) \<rparr>),
                   reinitTFTFLAG := 1 \<rparr>;
          s4 = s3\<lparr> reinitSHTmatrixFLAG := 1, new_order := order s3 \<rparr>;
          s5 = s4\<lparr> new_nSH := order2nSH (order s4) \<rparr>;
          s6 = s5\<lparr> nSH := new_nSH s5, bN := None, evalReady := 0 \<rparr>
      in s6\<lparr> cSH := (\<lambda>k. 0), lSH := (\<lambda>k. 0), recalcEvalFLAG := 1 \<rparr>)"

definition array2sh_init :: "'h engines \<Rightarrow> macros \<Rightarrow> 'h array2sh_data \<Rightarrow> int \<Rightarrow> 'h array2sh_data" where
  "array2sh_init E M s sampleRate =
     (let s1 = s\<lparr> fs := sampleRate \<rparr>;
          s2 = s1\<lparr> freqVector := (\<lambda>band. if band < HYBRID_BANDS M
                      then (if sampleRate = 44100 then afCenterFreq44100 M band
                            else afCenterFreq48e3 M band)
                      else freqVector s1 band) \<rparr>;
          s3 = s2\<lparr> freqVector := (freqVector s2)(0 := freqVector s2 1 / 4) \<rparr>
      in array2sh_checkReInit E s3)"

section \<open>Set functions\<close>

definition array2sh_refreshSettings :: "'h array2sh_data \<Rightarrow> 'h array2sh_data" where
  "array2sh_refreshSettings s = s\<lparr> reinitTFTFLAG := 1, reinitSHTmatrixFLAG := 1 \<rparr>"

definition array2sh_setEncodingOrder :: "'h array2sh_data \<Rightarrow> int \<Rightarrow> 'h array2sh_data" where
  "array2sh_setEncodingOrder s newOrder =
     (let s1 = s\<lparr> new_order := newOrder,
                  new_nSH := order2nSH newOrder,
                  reinitTFTFLAG := 1,
                  reinitSHTmatrixFLAG := 1 \<rparr>;
          s2 = (if order s1 \<noteq> ENCODING_ORDER_FIRST \<and> chOrdering s1 = CH_FUMA
                then s1\<lparr> chOrdering := CH_ACN \<rparr> else s1)
      in (if order s2 \<noteq> ENCODING_ORDER_FIRST \<and> norm' s2 = NORM_FUMA
          then s2\<lparr> norm' := NORM_SN3D \<rparr> else s2))"

definition array2sh_evaluateFilters :: "'h array2sh_data \<Rightarrow> 'h array2sh_data" where
  "array2sh_evaluateFilters s = s\<lparr> recalcEvalFLAG := 1 \<rparr>"

definition array2sh_setDiffEQpastAliasing :: "'h array2sh_data \<Rightarrow> int \<Rightarrow> 'h array2sh_data" where
  "array2sh_setDiffEQpastAliasing s newState =
     (if enableDiffEQpastAliasing s \<noteq> newState
      then s\<lparr> enableDiffEQpastAliasing := newState, reinitSHTmatrixFLAG := 1 \<rparr>
      else s)"

definition array2sh_setPreset :: "'h engines \<Rightarrow> macros \<Rightarrow> 'h array2sh_data \<Rightarrow> int \<Rightarrow> 'h array2sh_data" where
  "array2sh_setPreset E M s preset =
     (let a = initArray E (arraySpecs s) preset (new_order s) 0;
          s1 = s\<lparr> arraySpecs := fst a, new_order := snd a \<rparr>;
          s2 = s1\<lparr> c := (if preset = MICROPHONE_ARRAY_PRESET_AALTO_HYDROPHONE M then 1484 else 343) \<rparr>;
          s3 = s2\<lparr> new_nSH := order2nSH (new_order s2) \<rparr>
      in s3\<lparr> reinitTFTFLAG := 1, reinitSHTmatrixFLAG := 1 \<rparr>)"

definition array2sh_setSensorAzi_rad :: "'h array2sh_data \<Rightarrow> nat \<Rightarrow> real \<Rightarrow> 'h array2sh_data" where
  "array2sh_setSensorAzi_rad s index newAzi_rad =
     s\<lparr> arraySpecs := (arraySpecs s)
          \<lparr> sensorCoords_rad := (sensorCoords_rad (arraySpecs s))
               (index := (sensorCoords_rad (arraySpecs s) index)(0 := newAzi_rad)),
            sensorCoords_deg := (sensorCoords_deg (arraySpecs s))
               (index := (sensorCoords_deg (arraySpecs s) index)(0 := newAzi_rad * (180 / pi))) \<rparr>,
        reinitSHTmatrixFLAG := 1 \<rparr>"

definition array2sh_setSensorElev_rad :: "'h array2sh_data \<Rightarrow> nat \<Rightarrow> real \<Rightarrow> 'h array2sh_data" where
  "array2sh_setSensorElev_rad s index newElev_rad =
     s\<lparr> arraySpecs := (arraySpecs s)
          \<lparr> sensorCoords_rad := (sensorCoords_rad (arraySpecs s))
               (index := (sensorCoords_rad (arraySpecs s) index)(1 := newElev_rad)),
            sensorCoords_deg := (sensorCoords_deg (arraySpecs s))
               (index := (sensorCoords_deg (arraySpecs s) index)(1 := newElev_rad * (180 / pi))) \<rparr>,
        reinitSHTmatrixFLAG := 1 \<rparr>"

definition array2sh_setSensorAzi_deg :: "'h array2sh_data \<Rightarrow> nat \<Rightarrow> real \<Rightarrow> 'h array2sh_data" where
  "array2sh_setSensorAzi_deg s index newAzi_deg =
     s\<lparr> arraySpecs := (arraySpecs s)
          \<lparr> sensorCoords_rad := (sensorCoords_rad (arraySpecs s))
               (index := (sensorCoords_rad (arraySpecs s) index)(0 := newAzi_deg * (pi / 180))),
            sensorCoords_deg := (sensorCoords_deg (arraySpecs s))
               (index := (sensorCoords_deg (arraySpecs s) index)(0 := newAzi_deg)) \<rparr>,
        reinitSHTmatrixFLAG := 1 \<rparr>"

definition array2sh_setSensorElev_deg :: "'h array2sh_data \<Rightarrow> nat \<Rightarrow> real \<Rightarrow> 'h array2sh_data" where
  "array2sh_setSensorElev_deg s index newElev_deg =
     s\<lparr> arraySpecs := (arraySpecs s)
          \<lparr> sensorCoords_rad := (sensorCoords_rad (arraySpecs s))
               (index := (sensorCoords_rad (arraySpecs s) index)(1 := newElev_deg * (pi / 180))),
            sensorCoords_deg := (sensorCoords_deg (arraySpecs s))
               (index := (sensorCoords_deg (arraySpecs s) index)(1 := newElev_deg)) \<rparr>,
        reinitSHTmatrixFLAG := 1 \<rparr>"

definition array2sh_setNumSensors :: "'h array2sh_data \<Rightarrow> int \<Rightarrow> 'h array2sh_data" where
  "array2sh_setNumSensors s newQ' =
     (let s1 = (if newQ' < nSH s
                then (let s0 = s\<lparr> new_order := 1 \<rparr>
                      in s0\<lparr> new_nSH := order2nSH (new_order s0) \<rparr>)
                else s);
          s2 = s1\<lparr> arraySpecs := (arraySpecs s1)\<lparr> newQ := newQ' \<rparr> \<rparr>;
          s3 = s2\<lparr> reinitTFTFLAG :=
                    (if Q (arraySpecs s2) \<noteq> newQ (arraySpecs s2) then 1 else 0) \<rparr>
      in s3\<lparr> reinitSHTmatrixFLAG :=
                (if Q (arraySpecs s3) \<noteq> newQ (arraySpecs s3) then 1 else 0) \<rparr>)"

definition array2sh_setr :: "macros \<Rightarrow> 'h array2sh_data \<Rightarrow> real \<Rightarrow> 'h array2sh_data" where
  "array2sh_setr M s newr =
     s\<lparr> arraySpecs := (arraySpecs s)
          \<lparr> r := CLAMP newr (ARRAY2SH_ARRAY_RADIUS_MIN_VALUE M / 1000)
                             (ARRAY2SH_ARRAY_RADIUS_MAX_VALUE M / 1000) \<rparr>,
        reinitSHTmatrixFLAG := 1 \<rparr>"

definition array2sh_setR :: "macros \<Rightarrow> 'h array2sh_data \<Rightarrow> real \<Rightarrow> 'h array2sh_data" where
  "array2sh_setR M s newR =
     s\<lparr> arraySpecs := (arraySpecs s)
          \<lparr> R := CLAMP newR (ARRAY2SH_BAFFLE_RADIUS_MIN_VALUE M / 1000)
                             (ARRAY2SH_BAFFLE_RADIUS_MAX_VALUE M / 1000) \<rparr>,
        reinitSHTmatrixFLAG := 1 \<rparr>"

definition array2sh_setArrayType :: "'h array2sh_data \<Rightarrow> int \<Rightarrow> 'h array2sh_data" where
  "array2sh_setArrayType s newType =
     s\<lparr> arraySpecs := (arraySpecs s)\<lparr> arrayType := newType \<rparr>, reinitSHTmatrixFLAG := 1 \<rparr>"

definition array2sh_setWeightType :: "'h array2sh_data \<Rightarrow> int \<Rightarrow> 'h array2sh_data" where
  "array2sh_setWeightType s newType =
     s\<lparr> arraySpecs := (arraySpecs s)\<lparr> weightType := newType \<rparr>, reinitSHTmatrixFLAG := 1 \<rparr>"

definition array2sh_setFilterType :: "'h array2sh_data \<Rightarrow> int \<Rightarrow> 'h array2sh_data" where
  "array2sh_setFilterType s newType = s\<lparr> filterType := newType, reinitSHTmatrixFLAG := 1 \<rparr>"

definition array2sh_setRegPar :: "macros \<Rightarrow> 'h array2sh_data \<Rightarrow> real \<Rightarrow> 'h array2sh_data" where
  "array2sh_setRegPar M s newVal =
     s\<lparr> regPar := CLAMP newVal (ARRAY2SH_MAX_GAIN_MIN_VALUE M) (ARRAY2SH_MAX_GAIN_MAX_VALUE M),
        reinitSHTmatrixFLAG := 1 \<rparr>"

definition array2sh_setChOrder :: "'h array2sh_data \<Rightarrow> CH_ORDER \<Rightarrow> 'h array2sh_data" where
  "array2sh_setChOrder s newOrder =
     (if newOrder \<noteq> CH_FUMA \<or> order s = ENCODING_ORDER_FIRST
      then s\<lparr> chOrdering := newOrder \<rparr> else s)"

definition array2sh_setNormType :: "'h array2sh_data \<Rightarrow> NORM_TYPES \<Rightarrow> 'h array2sh_data" where
  "array2sh_setNormType s newType =
     (if newType \<noteq> NORM_FUMA \<or> order s = ENCODING_ORDER_FIRST
      then s\<lparr> norm' := newType \<rparr> else s)"

definition array2sh_setc :: "macros \<Rightarrow> 'h array2sh_data \<Rightarrow> real \<Rightarrow> 'h array2sh_data" where
  "array2sh_setc M s newc =
     s\<lparr> c := CLAMP newc (ARRAY2SH_SPEED_OF_SOUND_MIN_VALUE M) (ARRAY2SH_SPEED_OF_SOUND_MAX_VALUE M),
        reinitSHTmatrixFLAG := 1 \<rparr>"

definition array2sh_setGain :: "macros \<Rightarrow> 'h array2sh_data \<Rightarrow> real \<Rightarrow> 'h array2sh_data" where
  "array2sh_setGain M s newGain =
     s\<lparr> gain_dB := CLAMP newGain (ARRAY2SH_POST_GAIN_MIN_VALUE M) (ARRAY2SH_POST_GAIN_MAX_VALUE M) \<rparr>"

definition array2sh_setMaxFreq :: "'h array2sh_data \<Rightarrow> real \<Rightarrow> 'h array2sh_data" where
  "array2sh_setMaxFreq s newF = s\<lparr> maxFreq := newF \<rparr>"

text \<open>One call of the configuration interface.\<close>

datatype setter_call =
    RefreshSettings
  | SetEncodingOrder int
  | EvaluateFilters
  | SetDiffEQpastAliasing int
  | SetPreset int
  | SetSensorAzi_rad nat real
  | SetSensorElev_rad nat real
  | SetSensorAzi_deg nat real
  | SetSensorElev_deg nat real
  | SetNumSensors int
  | Setr real
  | SetR real
  | SetArrayType int
  | SetWeightType int
  | SetFilterType int
  | SetRegPar real
  | SetChOrder CH_ORDER
  | SetNormType NORM_TYPES
  | Setc real
  | SetGain real
  | SetMaxFreq real

fun apply_setter :: "'h engines \<Rightarrow> macros \<Rightarrow> setter_call \<Rightarrow> 'h array2sh_data \<Rightarrow> 'h array2sh_data" where
  "apply_setter E M RefreshSettings s = array2sh_refreshSettings s"
| "apply_setter E M (SetEncodingOrder n) s = array2sh_setEncodingOrder s n"
| "apply_setter E M EvaluateFilters s = array2sh_evaluateFilters s"
| "apply_setter E M (SetDiffEQpastAliasing b) s = array2sh_setDiffEQpastAliasing s b"
| "apply_setter E M (SetPreset p) s = array2sh_setPreset E M s p"
| "apply_setter E M (SetSensorAzi_rad i x) s = array2sh_setSensorAzi_rad s i x"
| "apply_setter E M (SetSensorElev_rad i x) s = array2sh_setSensorElev_rad s i x"
| "apply_setter E M (SetSensorAzi_deg i x) s = array2sh_setSensorAzi_deg s i x"
| "apply_setter E M (SetSensorElev_deg i x) s = array2sh_setSensorElev_deg s i x"
| "apply_setter E M (SetNumSensors q) s = array2sh_setNumSensors s q"
| "apply_setter E M (Setr x) s = array2sh_setr M s x"
| "apply_setter E M (SetR x) s = array2sh_setR M s x"
| "apply_setter E M (SetArrayType t) s = array2sh_setArrayType s t"
| "apply_setter E M (SetWeightType t) s = array2sh_setWeightType s t"
| "apply_setter E M (SetFilterType t) s = array2sh_setFilterType s t"
| "apply_setter E M (SetRegPar x) s = array2sh_setRegPar M s x"
| "apply_setter E M (SetChOrder o') s = array2sh_setChOrder s o'"
| "apply_setter E M (SetNormType t) s = array2sh_setNormType s t"
| "apply_setter E M (Setc x) s = array2sh_setc M s x"
| "apply_setter E M (SetGain x) s = array2sh_setGain M s x"
| "apply_setter E M (SetMaxFreq x) s = array2sh_setMaxFreq s x"

section \<open>Get functions\<close>

text \<open>The call returns the updated structure and the C return value.\<close>

definition array2sh_getEvalReady :: "'h array2sh_data \<Rightarrow> 'h array2sh_data \<times> int" where
  "array2sh_getEvalReady s =
     (if evalReady s \<noteq> 0 then (s\<lparr> evalReady := 0 \<rparr>, 1) else (s, 0))"

definition array2sh_getEncodingOrder :: "'h array2sh_data \<Rightarrow> int" where
  "array2sh_getEncodingOrder s = new_order s"

definition array2sh_getNSHrequired :: "'h array2sh_data \<Rightarrow> int" where
  "array2sh_getNSHrequired s = new_nSH s"

section \<open>Audio processing\<close>

text \<open>The table \<^verbatim>\<open>o[n] = n*n\<close>, \<open>n < MAX_SH_ORDER+2\<close>, of the first channel of each order band.\<close>

definition o_table :: "macros \<Rightarrow> int list" where
  "o_table M = map (\<lambda>n. int n * int n) [0..<MAX_SH_ORDER M + 2]"

text \<open>The reinitialisation at the head of \<^verbatim>\<open>array2sh_process\<close>, under \<^verbatim>\<open>#ifdef __APPLE__\<close>.\<close>

definition process_reinit :: "'h engines \<Rightarrow> macros \<Rightarrow> 'h array2sh_data \<Rightarrow> 'h array2sh_data" where
  "process_reinit E M s =
     (if APPLE M then array2sh_checkReInit E s
      else reinitSHTmatrix_step E (reinitTFT_step E s))"

text \<open>The guard of the signal path, read after that reinitialisation.\<close>

definition process_guard :: "macros \<Rightarrow> 'h array2sh_data \<Rightarrow> int \<Rightarrow> bool" where
  "process_guard M s nSamples =
     (nSamples = int (FRAME_SIZE M) \<and> recalcEvalFLAG s = 0 \<and> reinitSHTmatrixFLAG s = 0
        \<and> reinitTFTFLAG s = 0)"

text \<open>Load time-domain data.\<close>

definition load_inputFrameTD ::
  "macros \<Rightarrow> (nat \<Rightarrow> nat \<Rightarrow> real) \<Rightarrow> int \<Rightarrow> int \<Rightarrow> 'h array2sh_data \<Rightarrow> 'h array2sh_data" where
  "load_inputFrameTD M inputs nInputs Q' s =
     (let b1 = fold (\<lambda>i b. b(i := utility_svvcopy (inputs i) (FRAME_SIZE M) (b i) 0))
                 [0..<nat nInputs] (inputFrameTD s);
          b2 = fold (\<lambda>i b. b(i := memset0 (b i) 0 (FRAME_SIZE M))) [nat nInputs..<nat Q'] b1
      in s\<lparr> inputFrameTD := b2 \<rparr>)"

text \<open>Apply the time-frequency transform: one time slot, then all of them.\<close>

definition forward_slot :: "'h engines \<Rightarrow> macros \<Rightarrow> int \<Rightarrow> nat \<Rightarrow> 'h array2sh_data \<Rightarrow> 'h array2sh_data" where
  "forward_slot E M Q' t s =
     (let tin = fold (\<lambda>ch b. b(ch := utility_svvcopy
                         (\<lambda>i. inputFrameTD s ch (t * HOP_SIZE M + i)) (HOP_SIZE M) (b ch) 0))
                  [0..<nat Q'] (tempHopFrameTD_in s);
          fw = afSTFTforward E (hSTFT s) tin (STFTInputFrameTF s);
          X = snd fw
      in s\<lparr> tempHopFrameTD_in := tin,
            hSTFT := fst fw,
            STFTInputFrameTF := X,
            inputframeTF :=
              fold (\<lambda>band F. fold (\<lambda>ch F. F(band := (F band)(ch := (F band ch)
                        (t := Complex (re (X ch) band) (im (X ch) band)))))
                      [0..<nat Q'] F)
                [0..<HYBRID_BANDS M] (inputframeTF s) \<rparr>)"

definition apply_TFT :: "'h engines \<Rightarrow> macros \<Rightarrow> int \<Rightarrow> 'h array2sh_data \<Rightarrow> 'h array2sh_data" where
  "apply_TFT E M Q' s = fold (forward_slot E M Q') [0..<TIME_SLOTS M] s"

text \<open>
  \<^verbatim>\<open>cblas_cgemm\<close>, row-major, no transposition, \<open>alpha = 1\<close>, \<open>beta = 0\<close>: the \<open>m \<times> n\<close>
  block of \<open>C\<close> becomes the product of the \<open>m \<times> k\<close> block of \<open>A\<close> and the \<open>k \<times> n\<close> block
  of \<open>B\<close>.
\<close>

definition cblas_cgemm ::
  "int \<Rightarrow> nat \<Rightarrow> int \<Rightarrow> (nat \<Rightarrow> nat \<Rightarrow> complex) \<Rightarrow> (nat \<Rightarrow> nat \<Rightarrow> complex) \<Rightarrow> (nat \<Rightarrow> nat \<Rightarrow> complex)
     \<Rightarrow> (nat \<Rightarrow> nat \<Rightarrow> complex)" where
  "cblas_cgemm m n k A B C' =
     (\<lambda>i j. if i < nat m \<and> j < n then (\<Sum>l\<leftarrow>[0..<nat k]. A i l * B l j) else C' i j)"

text \<open>Apply the spherical harmonic transform.\<close>

definition apply_SHT :: "macros \<Rightarrow> int \<Rightarrow> int \<Rightarrow> int \<Rightarrow> 'h array2sh_data \<Rightarrow> 'h array2sh_data" where
  "apply_SHT M isPlaying nSH' Q' s =
     (if isPlaying \<noteq> 0
      then s\<lparr> SHframeTF :=
                fold (\<lambda>band F. F(band := cblas_cgemm nSH' (TIME_SLOTS M) Q' (W s band)
                                            (inputframeTF s band) (F band)))
                  [0..<HYBRID_BANDS M] (SHframeTF s) \<rparr>
      else s\<lparr> SHframeTF := (\<lambda>band ch t.
                if band < HYBRID_BANDS M \<and> ch < MAX_NUM_SH_SIGNALS M \<and> t < TIME_SLOTS M
                then 0 else SHframeTF s band ch t) \<rparr>)"

text \<open>Inverse TFT, first half of a time slot: the input of the inverse transform.\<close>

definition fill_STFTOutputFrameTF ::
  "macros \<Rightarrow> real \<Rightarrow> real \<Rightarrow> int \<Rightarrow> nat \<Rightarrow> 'h array2sh_data \<Rightarrow> 'h array2sh_data" where
  "fill_STFTOutputFrameTF M gain_lin maxFreq' nSH' t s =
     s\<lparr> STFTOutputFrameTF :=
          fold (\<lambda>band Y.
                  if freqVector s band < maxFreq'
                  then fold (\<lambda>ch Y. Y(ch := (Y ch)
                               \<lparr> re := (re (Y ch))(band := gain_lin * Re (SHframeTF s band ch t)),
                                 im := (im (Y ch))(band := gain_lin * Im (SHframeTF s band ch t)) \<rparr>))
                         [0..<nat nSH'] Y
                  else fold (\<lambda>ch Y. Y(ch := (Y ch)
                               \<lparr> re := (re (Y ch))(band := 0),
                                 im := (im (Y ch))(band := 0) \<rparr>))
                         [0..<nat nSH'] Y)
            [0..<HYBRID_BANDS M] (STFTOutputFrameTF s) \<rparr>"

text \<open>Copy the SH signals of time slot \<open>t\<close> to the output buffer.\<close>

definition copy_to_outputs ::
  "macros \<Rightarrow> CH_ORDER \<Rightarrow> int \<Rightarrow> int \<Rightarrow> nat \<Rightarrow> (nat \<Rightarrow> nat \<Rightarrow> real) \<Rightarrow> (nat \<Rightarrow> nat \<Rightarrow> real)
     \<Rightarrow> (nat \<Rightarrow> nat \<Rightarrow> real)" where
  "copy_to_outputs M chOrdering' nSH' nOutputs t tout outputs =
     (case chOrdering' of
        CH_ACN \<Rightarrow>
          (let o1 = fold (\<lambda>ch out. out(ch := utility_svvcopy (tout ch) (HOP_SIZE M) (out ch)
                                              (t * HOP_SIZE M)))
                      [0..<nat (min nSH' nOutputs)] outputs
           in fold (\<lambda>ch out. out(ch := memset0 (out ch) (t * HOP_SIZE M) (HOP_SIZE M)))
                [nat (min nSH' nOutputs)..<nat nOutputs] o1)
      | CH_FUMA \<Rightarrow>
          (if nOutputs \<ge> 4
           then (let o0 = outputs(0 := utility_svvcopy (tout 0) (HOP_SIZE M) (outputs 0)
                                        (t * HOP_SIZE M));
                     o1 = o0(2 := utility_svvcopy (tout 1) (HOP_SIZE M) (o0 2) (t * HOP_SIZE M));
                     o2 = o1(3 := utility_svvcopy (tout 2) (HOP_SIZE M) (o1 3) (t * HOP_SIZE M))
                 in o2(1 := utility_svvcopy (tout 3) (HOP_SIZE M) (o2 1) (t * HOP_SIZE M)))
           else outputs))"

text \<open>Inverse TFT: one time slot. The loop carries the structure and the output buffer.\<close>

definition inverse_slot ::
  "'h engines \<Rightarrow> macros \<Rightarrow> real \<Rightarrow> real \<Rightarrow> int \<Rightarrow> CH_ORDER \<Rightarrow> int \<Rightarrow> nat
     \<Rightarrow> 'h array2sh_data \<times> (nat \<Rightarrow> nat \<Rightarrow> real) \<Rightarrow> 'h array2sh_data \<times> (nat \<Rightarrow> nat \<Rightarrow> real)" where
  "inverse_slot E M gain_lin maxFreq' nSH' chOrdering' nOutputs t so =
     (let s1 = fill_STFTOutputFrameTF M gain_lin maxFreq' nSH' t (fst so);
          iv = afSTFTinverse E (hSTFT s1) (STFTOutputFrameTF s1) (tempHopFrameTD_out s1);
          s2 = s1\<lparr> hSTFT := fst iv, tempHopFrameTD_out := snd iv \<rparr>
      in (s2, copy_to_outputs M chOrdering' nSH' nOutputs t (tempHopFrameTD_out s2) (snd so)))"

text \<open>\<^verbatim>\<open>for(i = 0; i<FRAME_SIZE; i++) x[i] /= d\<close>.\<close>

definition divide_frame :: "macros \<Rightarrow> real \<Rightarrow> (nat \<Rightarrow> real) \<Rightarrow> (nat \<Rightarrow> real)" where
  "divide_frame M d x = (\<lambda>i. if i < FRAME_SIZE M then x i / d else x i)"

text \<open>Apply the normalisation scheme.\<close>

definition apply_norm ::
  "macros \<Rightarrow> NORM_TYPES \<Rightarrow> int \<Rightarrow> int \<Rightarrow> (nat \<Rightarrow> nat \<Rightarrow> real) \<Rightarrow> (nat \<Rightarrow> nat \<Rightarrow> real)" where
  "apply_norm M nrm order' nOutputs outputs =
     (case nrm of
        NORM_N3D \<Rightarrow> outputs
      | NORM_SN3D \<Rightarrow>
          fold (\<lambda>n out.
                  fold (\<lambda>ch out. out(ch := divide_frame M (sqrt (2 * real n + 1)) (out ch)))
                    [nat (o_table M ! n)..<nat (min (o_table M ! (n + 1)) nOutputs)] out)
            [0..<nat (order' + 1)] outputs
      | NORM_FUMA \<Rightarrow>
          (if nOutputs \<ge> 4
           then fold (\<lambda>ch out. out(ch := divide_frame M (sqrt 3) (out ch))) [1..<4]
                  (outputs(0 := divide_frame M (sqrt 2) (outputs 0)))
           else fold (\<lambda>i out. out(i := memset0 (out i) 0 (FRAME_SIZE M)))
                  [0..<nat nOutputs] outputs))"

text \<open>
  The transforms and the inverse-TFT loop \<^verbatim>\<open>for(t = 0; t < TIME_SLOTS; t++)\<close> with its
  bound as a parameter: the structure and the channel-ordered output when the first \<open>k\<close>
  time slots have been written.
\<close>

definition encode_slots ::
  "'h engines \<Rightarrow> macros \<Rightarrow> 'h array2sh_data \<Rightarrow> (nat \<Rightarrow> nat \<Rightarrow> real) \<Rightarrow> (nat \<Rightarrow> nat \<Rightarrow> real)
     \<Rightarrow> int \<Rightarrow> int \<Rightarrow> int \<Rightarrow> nat \<Rightarrow> 'h array2sh_data \<times> (nat \<Rightarrow> nat \<Rightarrow> real)" where
  "encode_slots E M s inputs outputs nInputs nOutputs isPlaying k =
     (let chOrdering' = chOrdering s;
          gain_lin = 10 powr (gain_dB s / 20);
          maxFreq' = maxFreq s;
          Q' = Q (arraySpecs s);
          nSH' = nSH s;
          s1 = load_inputFrameTD M inputs nInputs Q' s;
          s2 = apply_TFT E M Q' s1;
          s3 = apply_SHT M isPlaying nSH' Q' s2
      in fold (inverse_slot E M gain_lin maxFreq' nSH' chOrdering' nOutputs)
           [0..<k] (s3, outputs))"

text \<open>The channel-ordered output before normalisation, with the structure after the
  last time slot.\<close>

definition encode_frame ::
  "'h engines \<Rightarrow> macros \<Rightarrow> 'h array2sh_data \<Rightarrow> (nat \<Rightarrow> nat \<Rightarrow> real) \<Rightarrow> (nat \<Rightarrow> nat \<Rightarrow> real)
     \<Rightarrow> int \<Rightarrow> int \<Rightarrow> int \<Rightarrow> 'h array2sh_data \<times> (nat \<Rightarrow> nat \<Rightarrow> real)" where
  "encode_frame E M s inputs outputs nInputs nOutputs isPlaying =
     encode_slots E M s inputs outputs nInputs nOutputs isPlaying (TIME_SLOTS M)"

text \<open>The signal path: the body of the guarded branch.\<close>

definition signal_path ::
  "'h engines \<Rightarrow> macros \<Rightarrow> 'h array2sh_data \<Rightarrow> (nat \<Rightarrow> nat \<Rightarrow> real) \<Rightarrow> (nat \<Rightarrow> nat \<Rightarrow> real)
     \<Rightarrow> int \<Rightarrow> int \<Rightarrow> int \<Rightarrow> 'h array2sh_data \<times> (nat \<Rightarrow> nat \<Rightarrow> real)" where
  "signal_path E M s inputs outputs nInputs nOutputs isPlaying =
     (let nrm = norm' s;
          order' = order s;
          so = encode_frame E M s inputs outputs nInputs nOutputs isPlaying
      in (fst so, apply_norm M nrm order' nOutputs (snd so)))"

text \<open>The other branch: \<^verbatim>\<open>FRAME_SIZE\<close> samples of each output channel are cleared.\<close>

definition silence :: "macros \<Rightarrow> int \<Rightarrow> (nat \<Rightarrow> nat \<Rightarrow> real) \<Rightarrow> (nat \<Rightarrow> nat \<Rightarrow> real)" where
  "silence M nOutputs outputs =
     fold (\<lambda>ch out. out(ch := memset0 (out ch) 0 (FRAME_SIZE M))) [0..<nat nOutputs] outputs"

text \<open>
  \<^verbatim>\<open>array2sh_process\<close>. \<open>outputs\<close> is the caller's buffer as it is before the call; the
  result is the structure and the buffer after it.
\<close>

definition array2sh_process ::
  "'h engines \<Rightarrow> macros \<Rightarrow> 'h array2sh_data \<Rightarrow> (nat \<Rightarrow> nat \<Rightarrow> real) \<Rightarrow> (nat \<Rightarrow> nat \<Rightarrow> real)
     \<Rightarrow> int \<Rightarrow> int \<Rightarrow> int \<Rightarrow> int \<Rightarrow> 'h array2sh_data \<times> (nat \<Rightarrow> nat \<Rightarrow> real)" where
  "array2sh_process E M s inputs outputs nInputs nOutputs nSamples isPlaying =
     (let s1 = process_reinit E M s
      in if process_guard M s1 nSamples
         then signal_path E M s1 inputs outputs nInputs nOutputs isPlaying
         else (s1, silence M nOutputs outputs))"

section \<open>Predicates of the statements, and a concrete configuration\<close>

text \<open>The orders for which \<^verbatim>\<open>(order+1)*(order+1)\<close> does not leave the range of \<^verbatim>\<open>int\<close>.\<close>

definition order_in_range :: "int \<Rightarrow> bool" where
  "order_in_range n = (- 46341 \<le> n \<and> n \<le> 46339)"

definition nSH_relation :: "'h array2sh_data \<Rightarrow> bool" where
  "nSH_relation s = (nSH s = (order s + 1)\<^sup>2 \<and> new_nSH s = (new_order s + 1)\<^sup>2)"

text \<open>The order a configuration call stages, for the calls that stage one.\<close>

fun staged_order :: "'h engines \<Rightarrow> setter_call \<Rightarrow> 'h array2sh_data \<Rightarrow> int" where
  "staged_order E (SetEncodingOrder n) s = n"
| "staged_order E (SetPreset p) s = snd (initArray E (arraySpecs s) p (new_order s) 0)"
| "staged_order E call s = 1"

text \<open>
  The flags as the reinitialisation at the head of \<^verbatim>\<open>array2sh_process\<close> can settle them: a
  flag that is 0, or 1 where that reinitialisation handles it.
\<close>

definition reinit_settles :: "macros \<Rightarrow> 'h array2sh_data \<Rightarrow> bool" where
  "reinit_settles M s =
     ((reinitTFTFLAG s = 0 \<or> reinitTFTFLAG s = 1)
      \<and> (reinitSHTmatrixFLAG s = 0 \<or> reinitSHTmatrixFLAG s = 1)
      \<and> (recalcEvalFLAG s = 0 \<or> (APPLE M \<and> recalcEvalFLAG s = 1)))"

text \<open>
  A small instance: one hop of one sample per frame, one band, a transform that passes
  the sample through, the identity as encoding matrix, first order with four sensors.
\<close>

definition example_M :: macros where
  "example_M = \<lparr> HOP_SIZE = 1, TIME_SLOTS = 1, HYBRID_BANDS = 1, MAX_SH_ORDER = 7,
     MAX_NUM_SH_SIGNALS = 64, APPLE = False, FILTER_TIKHONOV = 2,
     MICROPHONE_ARRAY_PRESET_DEFAULT = 1, MICROPHONE_ARRAY_PRESET_AALTO_HYDROPHONE = 2,
     ARRAY2SH_ARRAY_RADIUS_MIN_VALUE = 1, ARRAY2SH_ARRAY_RADIUS_MAX_VALUE = 400,
     ARRAY2SH_BAFFLE_RADIUS_MIN_VALUE = 1, ARRAY2SH_BAFFLE_RADIUS_MAX_VALUE = 400,
     ARRAY2SH_MAX_GAIN_MIN_VALUE = 0, ARRAY2SH_MAX_GAIN_MAX_VALUE = 80,
     ARRAY2SH_SPEED_OF_SOUND_MIN_VALUE = 200, ARRAY2SH_SPEED_OF_SOUND_MAX_VALUE = 2000,
     ARRAY2SH_POST_GAIN_MIN_VALUE = -60, ARRAY2SH_POST_GAIN_MAX_VALUE = 60,
     afCenterFreq44100 = (\<lambda>band. 1000), afCenterFreq48e3 = (\<lambda>band. 1000) \<rparr>"

definition example_E :: "unit engines" where
  "example_E = \<lparr>
     afSTFTforward = (\<lambda>h x X. (h, \<lambda>ch. \<lparr> re = (\<lambda>band. x ch 0), im = (\<lambda>band. 0) \<rparr>)),
     afSTFTinverse = (\<lambda>h Y y. (h, \<lambda>ch i. re (Y ch) 0)),
     afSTFTreshape = (\<lambda>h q n. Some ()),
     computeEncodingMatrix = (\<lambda>ord a ft rp sp dq.
        ((\<lambda>band i j. if i = j then 1 else 0), (\<lambda>band n. 0), (\<lambda>band n. 0))),
     evaluateDiagnostics = (\<lambda>w ord a. ((\<lambda>k. 0), (\<lambda>k. 0))),
     initArray = (\<lambda>a preset ord first. (a, 1)) \<rparr>"

definition example_data :: "unit array2sh_data" where
  "example_data = \<lparr>
     arraySpecs = \<lparr> Q = 4, newQ = 4, r = 0.042, R = 0.042, arrayType = 1, weightType = 1,
                    sensorCoords_rad = (\<lambda>i k. 0), sensorCoords_deg = (\<lambda>i k. 0) \<rparr>,
     hSTFT = Some (),
     STFTInputFrameTF = (\<lambda>ch. \<lparr> re = (\<lambda>band. 0), im = (\<lambda>band. 0) \<rparr>),
     STFTOutputFrameTF = (\<lambda>ch. \<lparr> re = (\<lambda>band. 0), im = (\<lambda>band. 0) \<rparr>),
     tempHopFrameTD_in = (\<lambda>ch i. 0),
     tempHopFrameTD_out = (\<lambda>ch i. 0),
     inputFrameTD = (\<lambda>ch i. 0),
     inputframeTF = (\<lambda>band ch t. 0),
     SHframeTF = (\<lambda>band ch t. 0),
     W = (\<lambda>band i j. if i = j then 1 else 0),
     fs = 48000,
     freqVector = (\<lambda>band. 1000),
     filterType = 2,
     regPar = 15,
     chOrdering = CH_ACN,
     norm' = NORM_SN3D,
     c = 343,
     gain_dB = 0,
     maxFreq = 20000,
     enableDiffEQpastAliasing = 1,
     reinitTFTFLAG = 0,
     reinitSHTmatrixFLAG = 0,
     recalcEvalFLAG = 0,
     order = 1,
     new_order = 1,
     nSH = 4,
     new_nSH = 4,
     bN = None,
     evalReady = 0,
     currentEvalIsValid = 0,
     bN_modal_dB = (\<lambda>band n. 0),
     bN_inv_dB = (\<lambda>band n. 0),
     cSH = (\<lambda>k. 0),
     lSH = (\<lambda>k. 0) \<rparr>"

section \<open>Auxiliary facts\<close>

lemma fold_upd_range:
  assumes "\<And>k F. f k F = F(k := g k (F k))"
  shows "fold f [a..<b] F = (\<lambda>k. if a \<le> k \<and> k < b then g k (F k) else F k)"
proof (induction b)
  case 0
  show ?case by simp
next
  case (Suc b)
  show ?case
  proof (cases "a \<le> b")
    case True
    then have "[a..<Suc b] = [a..<b] @ [b]" by simp
    then show ?thesis using Suc by (auto simp: fun_eq_iff assms)
  next
    case False
    then show ?thesis by (auto simp: fun_eq_iff)
  qed
qed

lemma silence_apply:
  "silence M nOutputs outputs ch i =
     (if ch < nat nOutputs \<and> i < FRAME_SIZE M then 0 else outputs ch i)"
  unfolding silence_def
  by (subst fold_upd_range [where g = "\<lambda>ch x. memset0 x 0 (FRAME_SIZE M)"])
     (simp_all add: memset0_def)

lemma int32_id: "- 2147483648 \<le> x \<Longrightarrow> x < 2147483648 \<Longrightarrow> int32 x = x"
  by (simp add: int32_def)

lemma order2nSH_exact:
  assumes "order_in_range n"
  shows "order2nSH n = (n + 1)\<^sup>2"
proof -
  have b: "\<bar>n + 1\<bar> \<le> 46340" using assms unfolding order_in_range_def by linarith
  then have "(n + 1)\<^sup>2 \<le> 46340\<^sup>2"
    by (metis abs_le_square_iff abs_numeral)
  then have sq: "(n + 1) * (n + 1) < 2147483648" by (simp add: power2_eq_square)
  have nn: "- 2147483648 \<le> (n + 1) * (n + 1)"
  proof -
    have "0 \<le> (n + 1) * (n + 1)" by simp
    then show ?thesis by linarith
  qed
  have "int32 (n + 1) = n + 1" using b by (intro int32_id) auto
  moreover have "int32 ((n + 1) * (n + 1)) = (n + 1) * (n + 1)"
    by (rule int32_id [OF nn sq])
  ultimately show ?thesis by (simp add: order2nSH_def power2_eq_square)
qed

lemma setter_keeps_nSH_relation:
  assumes "nSH_relation s" "order_in_range (staged_order E call s)"
  shows "nSH_relation (apply_setter E M call s)"
proof (cases call)
  case (SetEncodingOrder n)
  then show ?thesis using assms
    by (simp add: array2sh_setEncodingOrder_def nSH_relation_def order2nSH_exact Let_def)
next
  case (SetPreset p)
  then show ?thesis using assms
    by (simp add: array2sh_setPreset_def nSH_relation_def order2nSH_exact Let_def)
next
  case (SetNumSensors q)
  have "order2nSH 1 = 4" by (simp add: order2nSH_def int32_def)
  then show ?thesis using assms SetNumSensors
    by (simp add: array2sh_setNumSensors_def nSH_relation_def Let_def)
qed (use assms in \<open>simp_all add: nSH_relation_def array2sh_refreshSettings_def
      array2sh_evaluateFilters_def array2sh_setDiffEQpastAliasing_def
      array2sh_setSensorAzi_rad_def array2sh_setSensorElev_rad_def
      array2sh_setSensorAzi_deg_def array2sh_setSensorElev_deg_def array2sh_setr_def
      array2sh_setR_def array2sh_setArrayType_def array2sh_setWeightType_def
      array2sh_setFilterType_def array2sh_setRegPar_def array2sh_setChOrder_def
      array2sh_setNormType_def array2sh_setc_def array2sh_setGain_def
      array2sh_setMaxFreq_def\<close>)

lemma create_nSH_relation:
  assumes "order_in_range (snd (initArray E (arraySpecs mem) (MICROPHONE_ARRAY_PRESET_DEFAULT M) (order mem) 1))"
  shows "nSH_relation (array2sh_create E M mem)"
  using assms by (simp add: array2sh_create_def nSH_relation_def order2nSH_exact Let_def)

lemma reinitTFT_step_nSH_relation: "nSH_relation s \<Longrightarrow> nSH_relation (reinitTFT_step E s)"
  by (simp add: reinitTFT_step_def array2sh_initTFT_def nSH_relation_def)

lemma reinitSHTmatrix_step_nSH_relation: "nSH_relation s \<Longrightarrow> nSH_relation (reinitSHTmatrix_step E s)"
  by (simp add: reinitSHTmatrix_step_def array2sh_calculate_sht_matrix_def
      array2sh_calculate_mag_curves_def nSH_relation_def Let_def)

lemma recalcEval_step_nSH_relation: "nSH_relation s \<Longrightarrow> nSH_relation (recalcEval_step E s)"
  by (simp add: recalcEval_step_def array2sh_evaluateSHTfilters_def nSH_relation_def Let_def)

lemma checkReInit_nSH_relation: "nSH_relation s \<Longrightarrow> nSH_relation (array2sh_checkReInit E s)"
  by (simp add: array2sh_checkReInit_def reinitTFT_step_nSH_relation
      reinitSHTmatrix_step_nSH_relation recalcEval_step_nSH_relation)

lemma process_reinit_nSH_relation: "nSH_relation s \<Longrightarrow> nSH_relation (process_reinit E M s)"
  by (simp add: process_reinit_def checkReInit_nSH_relation reinitTFT_step_nSH_relation
      reinitSHTmatrix_step_nSH_relation)

lemma fold_proj:
  assumes "\<And>x s. p (f x s) = p s"
  shows "p (fold f xs s) = p s"
  by (induction xs arbitrary: s) (simp_all add: assms)

lemma fold_commute:
  assumes "\<And>x s. f x (u s) = u (f x s)"
  shows "fold f xs (u s) = u (fold f xs s)"
  by (induction xs arbitrary: s) (simp_all add: assms)

lemma fold_svvcopy_channels:
  "fold (\<lambda>k b. b(k := utility_svvcopy (src k) len (b k) off)) [a..<n] F =
     (\<lambda>k. if a \<le> k \<and> k < n then utility_svvcopy (src k) len (F k) off else F k)"
  by (rule fold_upd_range) (simp add: fun_upd_def)

lemma fold_memset0_channels:
  "fold (\<lambda>k b. b(k := memset0 (b k) off len)) [a..<n] F =
     (\<lambda>k. if a \<le> k \<and> k < n then memset0 (F k) off len else F k)"
  by (rule fold_upd_range) (simp add: fun_upd_def)

lemma fold_divide_channels:
  "fold (\<lambda>k b. b(k := divide_frame M d (b k))) [a..<n] F =
     (\<lambda>k. if a \<le> k \<and> k < n then divide_frame M d (F k) else F k)"
  by (rule fold_upd_range) (simp add: fun_upd_def)

lemma load_inputFrameTD_apply:
  "inputFrameTD (load_inputFrameTD M inputs nInputs Q' s) ch i =
     (if ch < nat nInputs
      then (if i < FRAME_SIZE M then inputs ch i else inputFrameTD s ch i)
      else if ch < nat Q'
      then (if i < FRAME_SIZE M then 0 else inputFrameTD s ch i)
      else inputFrameTD s ch i)"
  unfolding load_inputFrameTD_def Let_def fold_svvcopy_channels fold_memset0_channels
  by (simp add: memset0_def utility_svvcopy_def)

lemma fold_upd_slot:
  "fold (\<lambda>ch F. F(band := (F band)(ch := (F band ch)(t := v ch)))) [0..<n] F =
     F(band := (\<lambda>ch. if ch < n then (F band ch)(t := v ch) else F band ch))"
  by (induction n) (auto simp: fun_eq_iff)

lemma fold_upd_bands_slot:
  "fold (\<lambda>band F. fold (\<lambda>ch F. F(band := (F band)(ch := (F band ch)(t := v band ch))))
                    [0..<n] F) [0..<m] F0 =
     (\<lambda>band ch t'. if band < m \<and> ch < n \<and> t' = t then v band ch else F0 band ch t')"
proof -
  have "fold (\<lambda>band F. F(band := (\<lambda>ch. if ch < n then (F band ch)(t := v band ch) else F band ch)))
          [0..<m] F0 =
        (\<lambda>band. if 0 \<le> band \<and> band < m
                then (\<lambda>ch. if ch < n then (F0 band ch)(t := v band ch) else F0 band ch)
                else F0 band)"
    by (rule fold_upd_range) (simp add: fun_upd_def)
  then show ?thesis by (auto simp: fold_upd_slot fun_eq_iff)
qed

lemma forward_slot_inputframeTF:
  "inputframeTF (forward_slot E M Q' t s) band ch t' =
     (if band < HYBRID_BANDS M \<and> ch < nat Q' \<and> t' = t
      then Complex (re (STFTInputFrameTF (forward_slot E M Q' t s) ch) band)
                   (im (STFTInputFrameTF (forward_slot E M Q' t s) ch) band)
      else inputframeTF s band ch t')"
  by (simp add: forward_slot_def Let_def fold_upd_bands_slot)

lemma forward_slot_tempHopFrameTD_in:
  "tempHopFrameTD_in (forward_slot E M Q' t s) ch i =
     (if ch < nat Q' \<and> i < HOP_SIZE M then inputFrameTD s ch (t * HOP_SIZE M + i)
      else tempHopFrameTD_in s ch i)"
  unfolding forward_slot_def Let_def fold_svvcopy_channels
  by (simp add: utility_svvcopy_def)

lemma forward_slot_STFTInputFrameTF:
  "STFTInputFrameTF (forward_slot E M Q' t s) =
     snd (afSTFTforward E (hSTFT s) (tempHopFrameTD_in (forward_slot E M Q' t s)) (STFTInputFrameTF s))"
  by (simp add: forward_slot_def Let_def)

lemma fold_cgemm_bands:
  "fold (\<lambda>band F. F(band := cblas_cgemm m n k (A band) (B band) (F band))) [a..<b] F0 =
     (\<lambda>band. if a \<le> band \<and> band < b then cblas_cgemm m n k (A band) (B band) (F0 band)
             else F0 band)"
  by (rule fold_upd_range) (simp add: fun_upd_def)

lemma apply_SHT_playing:
  "isPlaying \<noteq> 0 \<Longrightarrow> SHframeTF (apply_SHT M isPlaying nSH' Q' s) band ch t =
     (if band < HYBRID_BANDS M \<and> ch < nat nSH' \<and> t < TIME_SLOTS M
      then (\<Sum>l\<leftarrow>[0..<nat Q']. W s band ch l * inputframeTF s band l t)
      else SHframeTF s band ch t)"
  unfolding apply_SHT_def fold_cgemm_bands
  by (simp add: cblas_cgemm_def)

lemma fold_upd_band_entries:
  "fold (\<lambda>ch Y. Y(ch := (Y ch)\<lparr> re := (re (Y ch))(band := a ch), im := (im (Y ch))(band := b ch) \<rparr>))
     [0..<n] Y =
   (\<lambda>ch. if ch < n then (Y ch)\<lparr> re := (re (Y ch))(band := a ch), im := (im (Y ch))(band := b ch) \<rparr>
          else Y ch)"
proof -
  have "fold (\<lambda>ch Y. Y(ch := (Y ch)\<lparr> re := (re (Y ch))(band := a ch), im := (im (Y ch))(band := b ch) \<rparr>))
     [0..<n] Y =
   (\<lambda>ch. if 0 \<le> ch \<and> ch < n then (Y ch)\<lparr> re := (re (Y ch))(band := a ch), im := (im (Y ch))(band := b ch) \<rparr>
          else Y ch)"
    by (rule fold_upd_range) (simp add: fun_upd_def)
  then show ?thesis by simp
qed

lemma fill_bands:
  "fold (\<lambda>band Y.
          if fv band < mf
          then fold (\<lambda>ch Y. Y(ch := (Y ch)
                       \<lparr> re := (re (Y ch))(band := g * Re (S band ch t)),
                         im := (im (Y ch))(band := g * Im (S band ch t)) \<rparr>))
                 [0..<n] Y
          else fold (\<lambda>ch Y. Y(ch := (Y ch)
                       \<lparr> re := (re (Y ch))(band := 0),
                         im := (im (Y ch))(band := 0) \<rparr>))
                 [0..<n] Y)
     [0..<m] Y0 =
   (\<lambda>ch. if ch < n
          then \<lparr> re = (\<lambda>band. if band < m then (if fv band < mf then g * Re (S band ch t) else 0)
                               else re (Y0 ch) band),
                 im = (\<lambda>band. if band < m then (if fv band < mf then g * Im (S band ch t) else 0)
                               else im (Y0 ch) band) \<rparr>
          else Y0 ch)"
proof (induction m)
  case 0
  show ?case by (simp add: fun_eq_iff)
next
  case (Suc m)
  show ?case
    by (simp add: Suc fold_upd_band_entries fun_eq_iff)
qed

lemma fill_STFTOutputFrameTF_apply:
  "STFTOutputFrameTF (fill_STFTOutputFrameTF M gain_lin maxFreq' nSH' t s) ch =
     (if ch < nat nSH'
      then \<lparr> re = (\<lambda>band. if band < HYBRID_BANDS M
                     then (if freqVector s band < maxFreq'
                           then gain_lin * Re (SHframeTF s band ch t) else 0)
                     else re (STFTOutputFrameTF s ch) band),
             im = (\<lambda>band. if band < HYBRID_BANDS M
                     then (if freqVector s band < maxFreq'
                           then gain_lin * Im (SHframeTF s band ch t) else 0)
                     else im (STFTOutputFrameTF s ch) band) \<rparr>
      else STFTOutputFrameTF s ch)"
  by (simp add: fill_STFTOutputFrameTF_def fill_bands)

lemma copy_to_outputs_ACN:
  "copy_to_outputs M CH_ACN nSH' nOutputs t tout outputs ch i =
     (if ch < nat (min nSH' nOutputs)
      then (if t * HOP_SIZE M \<le> i \<and> i < t * HOP_SIZE M + HOP_SIZE M
            then tout ch (i - t * HOP_SIZE M) else outputs ch i)
      else if ch < nat nOutputs
      then (if t * HOP_SIZE M \<le> i \<and> i < t * HOP_SIZE M + HOP_SIZE M
            then 0 else outputs ch i)
      else outputs ch i)"
  unfolding copy_to_outputs_def Let_def CH_ORDER.case fold_svvcopy_channels fold_memset0_channels
  by (simp add: utility_svvcopy_def memset0_def)

lemma copy_to_outputs_FUMA_few:
  "nOutputs < 4 \<Longrightarrow> copy_to_outputs M CH_FUMA nSH' nOutputs t tout outputs = outputs"
  by (simp add: copy_to_outputs_def)

lemma copy_to_outputs_FUMA_beyond:
  "4 \<le> ch \<Longrightarrow> copy_to_outputs M CH_FUMA nSH' nOutputs t tout outputs ch = outputs ch"
  by (simp add: copy_to_outputs_def Let_def)

lemma inverse_slots_FUMA_few:
  "nOutputs < 4 \<Longrightarrow>
     snd (fold (inverse_slot E M g mf n CH_FUMA nOutputs) ts so) = snd so"
  by (induction ts arbitrary: so) (simp_all add: inverse_slot_def Let_def copy_to_outputs_FUMA_few)

lemma inverse_slots_FUMA_beyond:
  "4 \<le> ch \<Longrightarrow>
     snd (fold (inverse_slot E M g mf n CH_FUMA nOutputs) ts so) ch = snd so ch"
  by (induction ts arbitrary: so) (simp_all add: inverse_slot_def Let_def copy_to_outputs_FUMA_beyond)

lemma fold_upt_Suc: "fold f [0..<Suc T] x = f T (fold f [0..<T] x)"
  by simp

lemma copy_to_outputs_ACN_rest:
  assumes "nat (min n nOutputs) \<le> ch" "ch < nat nOutputs"
  shows "copy_to_outputs M CH_ACN n nOutputs t tout outputs ch i =
           (if t * HOP_SIZE M \<le> i \<and> i < t * HOP_SIZE M + HOP_SIZE M then 0 else outputs ch i)"
proof -
  have "\<not> ch < nat (min n nOutputs)" using assms(1) by linarith
  then show ?thesis using assms(2) by (simp only: copy_to_outputs_ACN if_False if_True)
qed

lemma inverse_slots_ACN_zero_fill:
  assumes "nat (min n nOutputs) \<le> ch" "ch < nat nOutputs"
  shows "i < T * HOP_SIZE M \<Longrightarrow>
     snd (fold (inverse_slot E M g mf n CH_ACN nOutputs) [0..<T] so) ch i = 0"
proof (induction T arbitrary: i)
  case 0
  then show ?case by simp
next
  case (Suc T)
  have step: "snd (fold (inverse_slot E M g mf n CH_ACN nOutputs) [0..<Suc T] so) ch i =
      (if T * HOP_SIZE M \<le> i \<and> i < T * HOP_SIZE M + HOP_SIZE M then 0
       else snd (fold (inverse_slot E M g mf n CH_ACN nOutputs) [0..<T] so) ch i)"
    unfolding fold_upt_Suc
    by (simp add: inverse_slot_def Let_def copy_to_outputs_ACN_rest [OF assms])
  show ?case
  proof (cases "i < T * HOP_SIZE M")
    case True
    then show ?thesis using Suc.IH [of i] by (simp only: step) simp
  next
    case False
    then show ?thesis using Suc.prems by (simp only: step) simp
  qed
qed

lemma less_nat_min: "ch < nat (min (int a) b) \<longleftrightarrow> ch < a \<and> int ch < b"
  by arith

lemma o_table_nth: "n < MAX_SH_ORDER M + 2 \<Longrightarrow> o_table M ! n = int n * int n"
  by (simp add: o_table_def del: upt_Suc)

lemma sn3d_bands:
  assumes "k \<le> MAX_SH_ORDER M + 1"
  shows "(\<forall>n ch. n < k \<and> n * n \<le> ch \<and> ch < (n + 1) * (n + 1) \<and> int ch < nOutputs \<longrightarrow>
            fold (\<lambda>n out.
                  fold (\<lambda>ch out. out(ch := divide_frame M (sqrt (2 * real n + 1)) (out ch)))
                    [nat (o_table M ! n)..<nat (min (o_table M ! (n + 1)) nOutputs)] out)
              [0..<k] outputs ch = divide_frame M (sqrt (2 * real n + 1)) (outputs ch))
       \<and> (\<forall>ch. k * k \<le> ch \<or> nOutputs \<le> int ch \<longrightarrow>
            fold (\<lambda>n out.
                  fold (\<lambda>ch out. out(ch := divide_frame M (sqrt (2 * real n + 1)) (out ch)))
                    [nat (o_table M ! n)..<nat (min (o_table M ! (n + 1)) nOutputs)] out)
              [0..<k] outputs ch = outputs ch)"
  using assms
proof (induction k)
  case 0
  show ?case by simp
next
  case (Suc k)
  let ?band = "\<lambda>n out.
                  fold (\<lambda>ch out. out(ch := divide_frame M (sqrt (2 * real n + 1)) (out ch)))
                    [nat (o_table M ! n)..<nat (min (o_table M ! (n + 1)) nOutputs)] out"
  let ?prev = "fold ?band [0..<k] outputs"
  have k: "k \<le> MAX_SH_ORDER M + 1" using Suc.prems by simp
  note IH = Suc.IH [OF k]
  have lo: "nat (o_table M ! k) = k * k"
    using Suc.prems by (simp add: o_table_nth nat_mult_distrib flip: of_nat_mult)
  have hi: "o_table M ! (k + 1) = int ((k + 1) * (k + 1))"
    using Suc.prems by (simp add: o_table_nth algebra_simps)
  have band_k: "fold (\<lambda>ch out. out(ch := divide_frame M (sqrt (2 * real k + 1)) (out ch)))
                    [nat (o_table M ! k)..<nat (min (o_table M ! (k + 1)) nOutputs)] out ch =
      (if k * k \<le> ch \<and> ch < (k + 1) * (k + 1) \<and> int ch < nOutputs
       then divide_frame M (sqrt (2 * real k + 1)) (out ch) else out ch)" for out ch
    unfolding fold_divide_channels lo hi less_nat_min by simp
  have step: "fold ?band [0..<Suc k] outputs ch =
      (if k * k \<le> ch \<and> ch < (k + 1) * (k + 1) \<and> int ch < nOutputs
       then divide_frame M (sqrt (2 * real k + 1)) (?prev ch) else ?prev ch)" for ch
    by (simp only: fold_upt_Suc band_k)
  show ?case
  proof (intro conjI allI impI)
    fix n ch
    assume a: "n < Suc k \<and> n * n \<le> ch \<and> ch < (n + 1) * (n + 1) \<and> int ch < nOutputs"
    show "fold ?band [0..<Suc k] outputs ch = divide_frame M (sqrt (2 * real n + 1)) (outputs ch)"
    proof (cases "n = k")
      case True
      then have "?prev ch = outputs ch" using IH a by blast
      then show ?thesis using a True by (simp only: step) simp
    next
      case False
      then have nk: "n < k" using a by simp
      then have "(n + 1) * (n + 1) \<le> k * k" by (intro mult_mono) auto
      then have "\<not> k * k \<le> ch" using a by linarith
      moreover have "?prev ch = divide_frame M (sqrt (2 * real n + 1)) (outputs ch)"
        using IH a nk by blast
      ultimately show ?thesis by (simp only: step) simp
    qed
  next
    fix ch
    assume a: "Suc k * Suc k \<le> ch \<or> nOutputs \<le> int ch"
    have "k * k \<le> Suc k * Suc k" by (intro mult_mono) auto
    then have "k * k \<le> ch \<or> nOutputs \<le> int ch" using a by linarith
    then have "?prev ch = outputs ch" using IH by blast
    moreover have "\<not> (k * k \<le> ch \<and> ch < (k + 1) * (k + 1) \<and> int ch < nOutputs)"
      using a by auto
    ultimately show "fold ?band [0..<Suc k] outputs ch = outputs ch"
      by (simp only: step) simp
  qed
qed

lemma apply_norm_SN3D_band:
  assumes "order' \<le> int (MAX_SH_ORDER M)" "int n \<le> order'"
    and "n * n \<le> ch" "ch < (n + 1) * (n + 1)" "int ch < nOutputs"
  shows "apply_norm M NORM_SN3D order' nOutputs outputs ch =
           divide_frame M (sqrt (2 * real n + 1)) (outputs ch)"
proof -
  have k: "nat (order' + 1) \<le> MAX_SH_ORDER M + 1" using assms by linarith
  have n: "n < nat (order' + 1)" using assms by linarith
  show ?thesis
    unfolding apply_norm_def NORM_TYPES.case
    using sn3d_bands [OF k, of nOutputs outputs] n assms by blast
qed

lemmas reinit_defs = process_reinit_def array2sh_checkReInit_def reinitTFT_step_def
  reinitSHTmatrix_step_def recalcEval_step_def array2sh_initTFT_def
  array2sh_calculate_sht_matrix_def array2sh_calculate_mag_curves_def
  array2sh_evaluateSHTfilters_def Let_def

lemma process_reinit_flags:
  "reinitTFTFLAG (process_reinit E M s) = (if reinitTFTFLAG s = 1 then 0 else reinitTFTFLAG s)"
  "reinitSHTmatrixFLAG (process_reinit E M s) =
     (if reinitSHTmatrixFLAG s = 1 then 0 else reinitSHTmatrixFLAG s)"
  "recalcEvalFLAG (process_reinit E M s) =
     (if APPLE M \<and> recalcEvalFLAG s = 1 then 0 else recalcEvalFLAG s)"
  by (simp_all add: reinit_defs)

lemma process_guard_reinit:
  "process_guard M (process_reinit E M s) nSamples =
     (nSamples = int (FRAME_SIZE M) \<and> reinit_settles M s)"
  by (auto simp: process_guard_def process_reinit_flags reinit_settles_def)

lemma process_reinit_clean:
  "reinitTFTFLAG s = 0 \<Longrightarrow> reinitSHTmatrixFLAG s = 0 \<Longrightarrow> recalcEvalFLAG s = 0 \<Longrightarrow>
     process_reinit E M s = s"
  by (simp add: process_reinit_def array2sh_checkReInit_def reinitTFT_step_def
      reinitSHTmatrix_step_def recalcEval_step_def)

lemma process_silent:
  assumes "\<not> process_guard M (process_reinit E M s) nSamples"
  shows "array2sh_process E M s inputs outputs nInputs nOutputs nSamples isPlaying =
           (process_reinit E M s, silence M nOutputs outputs)"
  using assms by (simp add: array2sh_process_def Let_def)

lemma process_runs:
  assumes "process_guard M (process_reinit E M s) nSamples"
  shows "array2sh_process E M s inputs outputs nInputs nOutputs nSamples isPlaying =
           signal_path E M (process_reinit E M s) inputs outputs nInputs nOutputs isPlaying"
  using assms by (simp add: array2sh_process_def Let_def)

lemma process_wrong_block_size:
  assumes "nSamples \<noteq> int (FRAME_SIZE M)"
  shows "snd (array2sh_process E M s inputs outputs nInputs nOutputs nSamples isPlaying) ch i =
           (if ch < nat nOutputs \<and> i < FRAME_SIZE M then 0 else outputs ch i)"
proof -
  have "\<not> process_guard M (process_reinit E M s) nSamples"
    using assms by (simp add: process_guard_def)
  then show ?thesis by (simp add: process_silent silence_apply)
qed

lemma load_nSH_relation:
  "nSH_relation (load_inputFrameTD M inputs nInputs Q' s) = nSH_relation s"
  by (simp add: load_inputFrameTD_def Let_def nSH_relation_def)

lemma forward_slot_nSH_relation: "nSH_relation (forward_slot E M Q' t s) = nSH_relation s"
  by (simp add: forward_slot_def Let_def nSH_relation_def)

lemma apply_TFT_nSH_relation: "nSH_relation (apply_TFT E M Q' s) = nSH_relation s"
  unfolding apply_TFT_def by (rule fold_proj) (rule forward_slot_nSH_relation)

lemma apply_SHT_nSH_relation: "nSH_relation (apply_SHT M isPlaying n Q' s) = nSH_relation s"
  by (simp add: apply_SHT_def nSH_relation_def)

lemma inverse_slot_nSH_relation:
  "nSH_relation (fst (inverse_slot E M g mf n co nOutputs t so)) = nSH_relation (fst so)"
  by (simp add: inverse_slot_def fill_STFTOutputFrameTF_def Let_def nSH_relation_def)

lemma encode_frame_nSH_relation:
  "nSH_relation (fst (encode_frame E M s inputs outputs nInputs nOutputs isPlaying)) = nSH_relation s"
proof -
  have "nSH_relation (fst (fold (inverse_slot E M g mf n co nOutputs) ts so)) = nSH_relation (fst so)"
    for g mf n co ts so
    by (rule fold_proj [where p = "\<lambda>so. nSH_relation (fst so)"]) (rule inverse_slot_nSH_relation)
  then show ?thesis
    by (simp add: encode_frame_def encode_slots_def Let_def apply_SHT_nSH_relation apply_TFT_nSH_relation
        load_nSH_relation)
qed

lemma process_nSH_relation:
  assumes "nSH_relation s"
  shows "nSH_relation (fst (array2sh_process E M s inputs outputs nInputs nOutputs nSamples isPlaying))"
  using process_reinit_nSH_relation [OF assms, of E M]
  by (simp add: array2sh_process_def signal_path_def Let_def encode_frame_nSH_relation)

lemma init_nSH_relation:
  assumes "nSH_relation s"
  shows "nSH_relation (array2sh_init E M s sampleRate)"
proof -
  have "nSH_relation (s\<lparr> fs := sampleRate \<rparr>)" using assms by (simp add: nSH_relation_def)
  then show ?thesis
    unfolding array2sh_init_def Let_def
    by (intro checkReInit_nSH_relation) (simp add: nSH_relation_def)
qed

lemma norm_reinitTFT_step:
  "reinitTFT_step E (s\<lparr> norm' := x \<rparr>) = (reinitTFT_step E s)\<lparr> norm' := x \<rparr>"
  by (simp add: reinitTFT_step_def array2sh_initTFT_def)

lemma norm_reinitSHTmatrix_step:
  "reinitSHTmatrix_step E (s\<lparr> norm' := x \<rparr>) = (reinitSHTmatrix_step E s)\<lparr> norm' := x \<rparr>"
  by (simp add: reinitSHTmatrix_step_def array2sh_calculate_sht_matrix_def
      array2sh_calculate_mag_curves_def Let_def)

lemma norm_recalcEval_step:
  "recalcEval_step E (s\<lparr> norm' := x \<rparr>) = (recalcEval_step E s)\<lparr> norm' := x \<rparr>"
  by (simp add: recalcEval_step_def array2sh_evaluateSHTfilters_def Let_def)

lemma norm_reinit:
  "process_reinit E M (s\<lparr> norm' := x \<rparr>) = (process_reinit E M s)\<lparr> norm' := x \<rparr>"
  by (simp add: process_reinit_def array2sh_checkReInit_def norm_reinitTFT_step
      norm_reinitSHTmatrix_step norm_recalcEval_step)

lemma norm_guard: "process_guard M (s\<lparr> norm' := x \<rparr>) n = process_guard M s n"
  by (simp add: process_guard_def)

lemma norm_load:
  "load_inputFrameTD M inputs nInputs Q' (s\<lparr> norm' := x \<rparr>) =
     (load_inputFrameTD M inputs nInputs Q' s)\<lparr> norm' := x \<rparr>"
  by (simp add: load_inputFrameTD_def Let_def)

lemma norm_forward_slot:
  "forward_slot E M Q' t (s\<lparr> norm' := x \<rparr>) = (forward_slot E M Q' t s)\<lparr> norm' := x \<rparr>"
  by (simp add: forward_slot_def Let_def)

lemma norm_apply_TFT:
  "apply_TFT E M Q' (s\<lparr> norm' := x \<rparr>) = (apply_TFT E M Q' s)\<lparr> norm' := x \<rparr>"
  unfolding apply_TFT_def
  by (rule fold_commute [where u = "\<lambda>s. s\<lparr> norm' := x \<rparr>"]) (rule norm_forward_slot)

lemma norm_apply_SHT:
  "apply_SHT M p n Q' (s\<lparr> norm' := x \<rparr>) = (apply_SHT M p n Q' s)\<lparr> norm' := x \<rparr>"
  by (simp add: apply_SHT_def cong: if_cong)

lemma norm_fill:
  "fill_STFTOutputFrameTF M g mf n t (s\<lparr> norm' := x \<rparr>) =
     (fill_STFTOutputFrameTF M g mf n t s)\<lparr> norm' := x \<rparr>"
  by (simp add: fill_STFTOutputFrameTF_def cong: if_cong)

lemma norm_inverse_slot:
  "inverse_slot E M g mf n co nOutputs t (apfst (\<lambda>s. s\<lparr> norm' := x \<rparr>) so) =
     apfst (\<lambda>s. s\<lparr> norm' := x \<rparr>) (inverse_slot E M g mf n co nOutputs t so)"
  by (cases so) (simp add: inverse_slot_def norm_fill Let_def)

lemma norm_encode_frame:
  "encode_frame E M (s\<lparr> norm' := x \<rparr>) inputs outputs nInputs nOutputs isPlaying =
     apfst (\<lambda>s. s\<lparr> norm' := x \<rparr>) (encode_frame E M s inputs outputs nInputs nOutputs isPlaying)"
proof -
  have f: "fold (inverse_slot E M g mf n co nOutputs) ts (apfst (\<lambda>s. s\<lparr> norm' := x \<rparr>) so) =
      apfst (\<lambda>s. s\<lparr> norm' := x \<rparr>) (fold (inverse_slot E M g mf n co nOutputs) ts so)"
    for g mf n co ts so
    by (rule fold_commute) (rule norm_inverse_slot)
  show ?thesis
    using f [of _ _ _ _ _ "(apply_SHT M isPlaying (nSH s) (Q (arraySpecs s))
        (apply_TFT E M (Q (arraySpecs s))
          (load_inputFrameTD M inputs nInputs (Q (arraySpecs s)) s)), outputs)"]
    by (simp add: encode_frame_def encode_slots_def Let_def norm_load norm_apply_TFT norm_apply_SHT)
qed

lemma process_output_by_norm:
  assumes "process_guard M (process_reinit E M s) nSamples"
  shows "snd (array2sh_process E M (s\<lparr> norm' := x \<rparr>) inputs outputs nInputs nOutputs nSamples isPlaying) =
     apply_norm M x (order (process_reinit E M s)) nOutputs
       (snd (encode_frame E M (process_reinit E M s) inputs outputs nInputs nOutputs isPlaying))"
  using assms
  by (simp add: array2sh_process_def Let_def norm_reinit norm_guard signal_path_def
      norm_encode_frame)

lemma example_guard:
  "reinitTFTFLAG s = 0 \<or> reinitTFTFLAG s = 1 \<Longrightarrow> reinitSHTmatrixFLAG s = 0 \<Longrightarrow>
   recalcEvalFLAG s = 0 \<Longrightarrow> process_guard example_M (process_reinit example_E example_M s) 1"
  by (auto simp: process_guard_reinit reinit_settles_def FRAME_SIZE_def example_M_def)

lemma apply_norm_SN3D_beyond:
  assumes "order' \<le> int (MAX_SH_ORDER M)"
    and "nat (order' + 1) * nat (order' + 1) \<le> ch \<or> nOutputs \<le> int ch"
  shows "apply_norm M NORM_SN3D order' nOutputs outputs ch = outputs ch"
proof -
  have k: "nat (order' + 1) \<le> MAX_SH_ORDER M + 1" using assms by linarith
  show ?thesis
    unfolding apply_norm_def NORM_TYPES.case
    using sn3d_bands [OF k, of nOutputs outputs] assms(2) by blast
qed

lemma encode_frame_FUMA_beyond:
  "chOrdering s = CH_FUMA \<Longrightarrow> 4 \<le> ch \<Longrightarrow>
     snd (encode_frame E M s inputs outputs nInputs nOutputs isPlaying) ch = outputs ch"
  by (simp add: encode_frame_def encode_slots_def Let_def inverse_slots_FUMA_beyond)

lemma encode_frame_FUMA_few:
  "chOrdering s = CH_FUMA \<Longrightarrow> nOutputs < 4 \<Longrightarrow>
     snd (encode_frame E M s inputs outputs nInputs nOutputs isPlaying) = outputs"
  by (simp add: encode_frame_def encode_slots_def Let_def inverse_slots_FUMA_few)

lemma inverse_slot_out:
  "snd (inverse_slot E M g mf n co nOutputs t so) =
     copy_to_outputs M co n nOutputs t
       (tempHopFrameTD_out (fst (inverse_slot E M g mf n co nOutputs t so))) (snd so)"
  by (simp add: inverse_slot_def Let_def)

lemma inverse_slot_tempHopFrameTD_out:
  "tempHopFrameTD_out (fst (inverse_slot E M g mf n co nOutputs t so)) =
     snd (afSTFTinverse E (hSTFT (fst so))
            (STFTOutputFrameTF (fill_STFTOutputFrameTF M g mf n t (fst so)))
            (tempHopFrameTD_out (fst so)))"
  by (simp add: inverse_slot_def Let_def fill_STFTOutputFrameTF_def)

lemma encode_frame_single_slot:
  "TIME_SLOTS M = 1 \<Longrightarrow>
     encode_frame E M s inputs outputs nInputs nOutputs isPlaying =
       inverse_slot E M (10 powr (gain_dB s / 20)) (maxFreq s) (nSH s) (chOrdering s) nOutputs 0
         (apply_SHT M isPlaying (nSH s) (Q (arraySpecs s))
            (forward_slot E M (Q (arraySpecs s)) 0
               (load_inputFrameTD M inputs nInputs (Q (arraySpecs s)) s)), outputs)"
  by (simp add: encode_frame_def encode_slots_def Let_def apply_TFT_def)

lemma encode_frame_single_slot_out:
  "TIME_SLOTS M = 1 \<Longrightarrow>
     snd (encode_frame E M s inputs outputs nInputs nOutputs isPlaying) =
       copy_to_outputs M (chOrdering s) (nSH s) nOutputs 0
         (tempHopFrameTD_out (fst (encode_frame E M s inputs outputs nInputs nOutputs isPlaying)))
         outputs"
  by (simp only: encode_frame_single_slot) (simp add: inverse_slot_out)

lemma copy_to_outputs_FUMA_remap:
  assumes "4 \<le> nOutputs" "t * HOP_SIZE M \<le> i" "i < t * HOP_SIZE M + HOP_SIZE M"
  shows "copy_to_outputs M CH_FUMA n nOutputs t tout outputs 0 i = tout 0 (i - t * HOP_SIZE M)"
    and "copy_to_outputs M CH_FUMA n nOutputs t tout outputs 2 i = tout 1 (i - t * HOP_SIZE M)"
    and "copy_to_outputs M CH_FUMA n nOutputs t tout outputs 3 i = tout 2 (i - t * HOP_SIZE M)"
    and "copy_to_outputs M CH_FUMA n nOutputs t tout outputs 1 i = tout 3 (i - t * HOP_SIZE M)"
  using assms by (simp_all add: copy_to_outputs_def Let_def utility_svvcopy_def)

lemma stage_keeps_W:
  "W (load_inputFrameTD M inputs nInputs Q' s) = W s"
  "W (forward_slot E M Q' t s) = W s"
  by (simp_all add: load_inputFrameTD_def forward_slot_def Let_def)

lemma stage_keeps_freqVector:
  "freqVector (load_inputFrameTD M inputs nInputs Q' s) = freqVector s"
  "freqVector (forward_slot E M Q' t s) = freqVector s"
  "freqVector (apply_SHT M p n Q' s) = freqVector s"
  by (simp_all add: load_inputFrameTD_def forward_slot_def apply_SHT_def Let_def)

lemma stage_keeps_hSTFT:
  "hSTFT (load_inputFrameTD M inputs nInputs Q' s) = hSTFT s"
  "hSTFT (apply_SHT M p n Q' s) = hSTFT s"
  "hSTFT (fill_STFTOutputFrameTF M g mf n t s) = hSTFT s"
  by (simp_all add: load_inputFrameTD_def apply_SHT_def fill_STFTOutputFrameTF_def Let_def)

lemma upt_0_4: "[0..<4] = [0, 1, 2, Suc 2]"
  by (simp add: upt_rec)

lemma example_M_sizes:
  "TIME_SLOTS example_M = 1" "HOP_SIZE example_M = 1" "HYBRID_BANDS example_M = 1"
  "FRAME_SIZE example_M = 1" "MAX_SH_ORDER example_M = 7" "APPLE example_M = False"
  by (simp_all add: example_M_def FRAME_SIZE_def)

lemma signal_path_N3D:
  "norm' s = NORM_N3D \<Longrightarrow>
     signal_path E M s inputs outputs nInputs nOutputs isPlaying =
       encode_frame E M s inputs outputs nInputs nOutputs isPlaying"
  by (simp add: signal_path_def Let_def apply_norm_def)

lemma encode_frame_ACN_zero_fill:
  assumes "chOrdering s = CH_ACN" "nat (min (nSH s) nOutputs) \<le> ch" "ch < nat nOutputs"
    and "i < FRAME_SIZE M"
  shows "snd (encode_frame E M s inputs outputs nInputs nOutputs isPlaying) ch i = 0"
  using assms(4) unfolding encode_frame_def encode_slots_def Let_def assms(1) FRAME_SIZE_def
  by (rule inverse_slots_ACN_zero_fill [OF assms(2,3)])

lemma encode_slots_Suc:
  "encode_slots E M s inputs outputs nInputs nOutputs isPlaying (Suc k) =
     inverse_slot E M (10 powr (gain_dB s / 20)) (maxFreq s) (nSH s) (chOrdering s) nOutputs k
       (encode_slots E M s inputs outputs nInputs nOutputs isPlaying k)"
  by (simp add: encode_slots_def Let_def)

lemma inverse_slot_keeps:
  "SHframeTF (fst (inverse_slot E M g mf n co nOutputs t so)) = SHframeTF (fst so)"
  "freqVector (fst (inverse_slot E M g mf n co nOutputs t so)) = freqVector (fst so)"
  by (simp_all add: inverse_slot_def fill_STFTOutputFrameTF_def Let_def)

lemma inverse_slot_STFTOutputFrameTF:
  "STFTOutputFrameTF (fst (inverse_slot E M g mf n co nOutputs t so)) =
     STFTOutputFrameTF (fill_STFTOutputFrameTF M g mf n t (fst so))"
  by (simp add: inverse_slot_def Let_def)

lemma apply_TFT_keeps:
  "freqVector (apply_TFT E M Q' s) = freqVector s"
  "W (apply_TFT E M Q' s) = W s"
  unfolding apply_TFT_def
  by (rule fold_proj, simp add: stage_keeps_freqVector stage_keeps_W)+

lemma encode_slots_SHframeTF:
  "SHframeTF (fst (encode_slots E M s inputs outputs nInputs nOutputs isPlaying k)) =
     SHframeTF (apply_SHT M isPlaying (nSH s) (Q (arraySpecs s))
        (apply_TFT E M (Q (arraySpecs s))
           (load_inputFrameTD M inputs nInputs (Q (arraySpecs s)) s)))"
proof -
  have "SHframeTF (fst (fold (inverse_slot E M g mf n co nOutputs) ts so)) = SHframeTF (fst so)"
    for g mf n co ts so
    by (rule fold_proj [where p = "\<lambda>so. SHframeTF (fst so)"]) (rule inverse_slot_keeps)
  then show ?thesis by (simp add: encode_slots_def Let_def)
qed

lemma encode_slots_freqVector:
  "freqVector (fst (encode_slots E M s inputs outputs nInputs nOutputs isPlaying k)) = freqVector s"
proof -
  have "freqVector (fst (fold (inverse_slot E M g mf n co nOutputs) ts so)) = freqVector (fst so)"
    for g mf n co ts so
    by (rule fold_proj [where p = "\<lambda>so. freqVector (fst so)"]) (rule inverse_slot_keeps)
  then show ?thesis
    by (simp add: encode_slots_def Let_def stage_keeps_freqVector apply_TFT_keeps)
qed

lemma process_final_structure:
  assumes "process_guard M (process_reinit E M s) nSamples"
  shows "fst (array2sh_process E M s inputs outputs nInputs nOutputs nSamples isPlaying) =
     fst (encode_slots E M (process_reinit E M s) inputs outputs nInputs nOutputs isPlaying
            (TIME_SLOTS M))"
  by (simp add: process_runs [OF assms] signal_path_def Let_def encode_frame_def)

lemma example_SH_coefficient:
  assumes "W s = (\<lambda>band i j. if i = j then 1 else 0)" "Q (arraySpecs s) = 4" "nSH s = 4"
  shows "SHframeTF (fst (encode_slots example_E example_M s (\<lambda>ch i. 1) outputs 4 nOutputs 1 k)) 0 0 0 = 1"
proof -
  define inp :: "nat \<Rightarrow> nat \<Rightarrow> real" where "inp = (\<lambda>ch i. 1)"
  have fwd: "afSTFTforward example_E h x X = (h, \<lambda>ch. \<lparr> re = (\<lambda>band. x ch 0), im = (\<lambda>band. 0) \<rparr>)"
    for h x X by (simp add: example_E_def)
  define s1 where "s1 = load_inputFrameTD example_M inp 4 4 s"
  define s2 where "s2 = forward_slot example_E example_M 4 0 s1"
  have td: "inputFrameTD s1 l 0 = 1" if "l < 4" for l
    using that by (simp add: s1_def load_inputFrameTD_apply example_M_sizes inp_def)
  have tf: "inputframeTF s2 0 l 0 = 1" if "l < 4" for l
    using that
    by (simp add: s2_def forward_slot_inputframeTF forward_slot_STFTInputFrameTF fwd
        forward_slot_tempHopFrameTD_in example_M_sizes td one_complex.code)
  have w: "W s2 = (\<lambda>band i j. if i = j then 1 else 0)"
    by (simp add: s2_def s1_def stage_keeps_W assms)
  have tft: "apply_TFT example_E example_M 4 s1 = s2"
    by (simp add: apply_TFT_def example_M_sizes s2_def)
  have "SHframeTF (apply_SHT example_M 1 4 4 s2) 0 0 0 = 1"
    by (simp add: apply_SHT_playing example_M_sizes w upt_0_4 tf)
  then show ?thesis
    by (simp add: encode_slots_SHframeTF assms inp_def [symmetric] s1_def [symmetric] tft)
qed

section \<open>The evaluation-ready latch\<close>

text \<open>
  C9. \<^verbatim>\<open>array2sh_getEvalReady\<close> is a read-once latch: when the latch is set, the call
  returns 1 and clears the latch (nothing else changes), so a call that follows at once
  returns 0; when the latch is clear, the call returns 0 and changes nothing.
\<close>

theorem getEvalReady_read_once:
  "(evalReady s \<noteq> 0 \<longrightarrow>
      array2sh_getEvalReady s = (s\<lparr> evalReady := 0 \<rparr>, 1)
      \<and> snd (array2sh_getEvalReady (fst (array2sh_getEvalReady s))) = 0)
   \<and> (evalReady s = 0 \<longrightarrow> array2sh_getEvalReady s = (s, 0))"
  by (simp add: array2sh_getEvalReady_def)

theorem getEvalReady_read_once_witness:
  "evalReady (example_data\<lparr> evalReady := 1 \<rparr>) \<noteq> 0
   \<and> array2sh_getEvalReady (example_data\<lparr> evalReady := 1 \<rparr>)
       = ((example_data\<lparr> evalReady := 1 \<rparr>)\<lparr> evalReady := 0 \<rparr>, 1)
   \<and> snd (array2sh_getEvalReady (fst (array2sh_getEvalReady (example_data\<lparr> evalReady := 1 \<rparr>)))) = 0
   \<and> evalReady example_data = 0
   \<and> array2sh_getEvalReady example_data = (example_data, 0)"
proof -
  have set: "evalReady (example_data\<lparr> evalReady := 1 \<rparr>) \<noteq> 0" by simp
  have clear: "evalReady example_data = 0" by (simp add: example_data_def)
  show ?thesis
    using getEvalReady_read_once [of "example_data\<lparr> evalReady := 1 \<rparr>"]
      getEvalReady_read_once [of example_data] set clear
    by blast
qed

section \<open>Sensor count and the reinitialisation flags\<close>

text \<open>
  C10. \<^verbatim>\<open>array2sh_setNumSensors\<close> with the active sensor count \<open>Q\<close> as argument sets
  \<open>reinitTFTFLAG\<close> and \<open>reinitSHTmatrixFLAG\<close> to 0, whatever they were before, so a
  pending reinitialisation is cancelled; with any other argument it sets both to 1.
\<close>

theorem setNumSensors_flags:
  "(q = Q (arraySpecs s) \<longrightarrow>
      reinitTFTFLAG (array2sh_setNumSensors s q) = 0
      \<and> reinitSHTmatrixFLAG (array2sh_setNumSensors s q) = 0)
   \<and> (q \<noteq> Q (arraySpecs s) \<longrightarrow>
      reinitTFTFLAG (array2sh_setNumSensors s q) = 1
      \<and> reinitSHTmatrixFLAG (array2sh_setNumSensors s q) = 1)"
  by (simp add: array2sh_setNumSensors_def Let_def)

theorem setNumSensors_flags_witness:
  "Q (arraySpecs (array2sh_refreshSettings example_data)) = 4
   \<and> reinitTFTFLAG (array2sh_refreshSettings example_data) = 1
   \<and> reinitSHTmatrixFLAG (array2sh_refreshSettings example_data) = 1
   \<and> reinitTFTFLAG (array2sh_setNumSensors (array2sh_refreshSettings example_data) 4) = 0
   \<and> reinitSHTmatrixFLAG (array2sh_setNumSensors (array2sh_refreshSettings example_data) 4) = 0
   \<and> reinitTFTFLAG (array2sh_setNumSensors (array2sh_refreshSettings example_data) 5) = 1
   \<and> reinitSHTmatrixFLAG (array2sh_setNumSensors (array2sh_refreshSettings example_data) 5) = 1"
proof -
  have q: "Q (arraySpecs (array2sh_refreshSettings example_data)) = 4"
    by (simp add: array2sh_refreshSettings_def example_data_def)
  have f: "reinitTFTFLAG (array2sh_refreshSettings example_data) = 1
      \<and> reinitSHTmatrixFLAG (array2sh_refreshSettings example_data) = 1"
    by (simp add: array2sh_refreshSettings_def)
  show ?thesis
    using setNumSensors_flags [of 4 "array2sh_refreshSettings example_data"]
      setNumSensors_flags [of 5 "array2sh_refreshSettings example_data"] q f
    by simp
qed

section \<open>FuMa and the encoding order\<close>

text \<open>
  C5. The claim: raising the order from 1 to 2 under FuMa ordering forces ACN (and SN3D
  under FuMa normalisation), and lowering it from 2 to 1 leaves the ordering as it is.
  \<^verbatim>\<open>array2sh_setEncodingOrder\<close> tests the active \<open>order\<close>, which the call does not change,
  not the order it stages. At active order 1 with FuMa ordering and normalisation, staging
  order 2 keeps both, and the next reinitialisation makes order 2 active under FuMa; from
  there, staging order 1 resets the ordering to ACN.
\<close>

theorem setEncodingOrder_tests_active_order:
  "order (example_data\<lparr> chOrdering := CH_FUMA, norm' := NORM_FUMA \<rparr>) = 1
   \<and> chOrdering (array2sh_setEncodingOrder
         (example_data\<lparr> chOrdering := CH_FUMA, norm' := NORM_FUMA \<rparr>) 2) = CH_FUMA
   \<and> norm' (array2sh_setEncodingOrder
         (example_data\<lparr> chOrdering := CH_FUMA, norm' := NORM_FUMA \<rparr>) 2) = NORM_FUMA
   \<and> new_order (array2sh_setEncodingOrder
         (example_data\<lparr> chOrdering := CH_FUMA, norm' := NORM_FUMA \<rparr>) 2) = 2
   \<and> order (array2sh_checkReInit example_E (array2sh_setEncodingOrder
         (example_data\<lparr> chOrdering := CH_FUMA, norm' := NORM_FUMA \<rparr>) 2)) = 2
   \<and> chOrdering (array2sh_checkReInit example_E (array2sh_setEncodingOrder
         (example_data\<lparr> chOrdering := CH_FUMA, norm' := NORM_FUMA \<rparr>) 2)) = CH_FUMA
   \<and> chOrdering (array2sh_setEncodingOrder (array2sh_checkReInit example_E
         (array2sh_setEncodingOrder
            (example_data\<lparr> chOrdering := CH_FUMA, norm' := NORM_FUMA \<rparr>) 2)) 1) = CH_ACN"
  by (simp add: array2sh_setEncodingOrder_def example_data_def ENCODING_ORDER_FIRST_def
      Let_def array2sh_checkReInit_def reinitTFT_step_def reinitSHTmatrix_step_def
      recalcEval_step_def array2sh_initTFT_def array2sh_calculate_sht_matrix_def
      array2sh_calculate_mag_curves_def)

section \<open>Block size\<close>

text \<open>
  C2. The claim: a call with \<open>nSamples\<close> other than the frame size yields zero for every
  sample \<open>i < nSamples\<close> of every channel \<open>ch < nOutputs\<close>. The branch clears
  \<^verbatim>\<open>FRAME_SIZE\<close> samples of each channel, whatever \<open>nSamples\<close> is. With a frame of one
  sample, a call for two samples on a buffer that holds 1 everywhere clears sample 0 and
  leaves sample 1 as it was.
\<close>

theorem wrong_block_size_clears_one_frame:
  "snd (array2sh_process example_E example_M example_data (\<lambda>ch i. 0) (\<lambda>ch i. 1) 4 4 2 1) 0 0 = 0
   \<and> snd (array2sh_process example_E example_M example_data (\<lambda>ch i. 0) (\<lambda>ch i. 1) 4 4 2 1) 0 1 = 1"
proof -
  have "(2::int) \<noteq> int (FRAME_SIZE example_M)" by (simp add: FRAME_SIZE_def example_M_def)
  then show ?thesis
    by (simp add: process_wrong_block_size FRAME_SIZE_def example_M_def)
qed

section \<open>Order and number of SH signals\<close>

text \<open>
  C8. \<open>nSH = (order+1)\<^sup>2\<close> for the active pair and \<open>new_nSH = (new_order+1)\<^sup>2\<close> for the
  staged pair: after \<^verbatim>\<open>array2sh_create\<close>, and kept by every set function, by
  \<^verbatim>\<open>array2sh_checkReInit\<close>, \<^verbatim>\<open>array2sh_init\<close> and \<^verbatim>\<open>array2sh_process\<close>, for every
  order whose square the 32-bit product can hold.
\<close>

theorem nSH_is_order_plus_one_squared:
  "(order_in_range (snd (initArray E (arraySpecs mem) (MICROPHONE_ARRAY_PRESET_DEFAULT M) (order mem) 1))
      \<longrightarrow> nSH_relation (array2sh_create E M mem))
   \<and> (nSH_relation s \<and> order_in_range (staged_order E call s)
      \<longrightarrow> nSH_relation (apply_setter E M call s))
   \<and> (nSH_relation s
      \<longrightarrow> nSH_relation (array2sh_checkReInit E s)
        \<and> nSH_relation (array2sh_init E M s sampleRate)
        \<and> nSH_relation (fst (array2sh_process E M s inputs outputs nInputs nOutputs nSamples isPlaying)))"
  by (simp add: create_nSH_relation setter_keeps_nSH_relation checkReInit_nSH_relation
      init_nSH_relation process_nSH_relation)

theorem nSH_is_order_plus_one_squared_witness:
  "order_in_range (snd (initArray example_E (arraySpecs example_data)
       (MICROPHONE_ARRAY_PRESET_DEFAULT example_M) (order example_data) 1))
   \<and> nSH_relation (array2sh_create example_E example_M example_data)
   \<and> nSH_relation example_data
   \<and> order_in_range (staged_order example_E (SetEncodingOrder 2) example_data)
   \<and> nSH_relation (apply_setter example_E example_M (SetEncodingOrder 2) example_data)
   \<and> nSH_relation (array2sh_checkReInit example_E example_data)
   \<and> nSH_relation (array2sh_init example_E example_M example_data 48000)
   \<and> nSH_relation (fst (array2sh_process example_E example_M example_data
         (\<lambda>ch i. 1) (\<lambda>ch i. 0) 4 4 1 1))"
proof -
  have a: "order_in_range (snd (initArray example_E (arraySpecs example_data)
       (MICROPHONE_ARRAY_PRESET_DEFAULT example_M) (order example_data) 1))"
    by (simp add: example_E_def order_in_range_def)
  have b: "nSH_relation example_data" by (simp add: nSH_relation_def example_data_def)
  have c: "order_in_range (staged_order example_E (SetEncodingOrder 2) example_data)"
    by (simp add: order_in_range_def)
  show ?thesis
    using a b c
      nSH_is_order_plus_one_squared [of example_E example_data example_M example_data
        "SetEncodingOrder 2" 48000 "\<lambda>ch i. 1" "\<lambda>ch i. 0" 4 4 1 1]
    by blast
qed


section \<open>Reinitialisation flags and the signal path\<close>





section \<open>Frequency gate and post-gain\<close>

text \<open>
  C7. In a call of \<^verbatim>\<open>array2sh_process\<close> that executes the signal path, at every time slot
  \<open>t\<close>, for every band below \<^verbatim>\<open>HYBRID_BANDS\<close> and every channel below \<open>nSH\<close>: the
  coefficient written to the input of the inverse transform is zero (real and imaginary
  part) when the band's centre frequency is at or above \<open>maxFreq\<close>, and the SH coefficient
  of the call times the linear post-gain \<open>10 powr (gain_dB / 20)\<close> when it is below; and
  that input is what \<^verbatim>\<open>afSTFTinverse\<close> is applied to. \<open>rr\<close> is the structure after the
  reinitialisation, \<open>before\<close> and \<open>after\<close> the structure before and after time slot \<open>t\<close> of
  the loop, \<open>final\<close> the structure the call leaves.
\<close>

theorem process_gates_and_scales_inverse_input:
  assumes "rr = process_reinit E M s"
    and "process_guard M rr nSamples"
    and "t < TIME_SLOTS M" and "band < HYBRID_BANDS M" and "ch < nat (nSH rr)"
    and "before = fst (encode_slots E M rr inputs outputs nInputs nOutputs isPlaying t)"
    and "after = fst (encode_slots E M rr inputs outputs nInputs nOutputs isPlaying (Suc t))"
    and "final = fst (array2sh_process E M s inputs outputs nInputs nOutputs nSamples isPlaying)"
  shows "final = fst (encode_slots E M rr inputs outputs nInputs nOutputs isPlaying (TIME_SLOTS M))
     \<and> tempHopFrameTD_out after =
         snd (afSTFTinverse E (hSTFT before) (STFTOutputFrameTF after) (tempHopFrameTD_out before))
     \<and> (maxFreq rr \<le> freqVector rr band \<longrightarrow>
           re (STFTOutputFrameTF after ch) band = 0 \<and> im (STFTOutputFrameTF after ch) band = 0)
     \<and> (freqVector rr band < maxFreq rr \<longrightarrow>
           re (STFTOutputFrameTF after ch) band
             = 10 powr (gain_dB rr / 20) * Re (SHframeTF final band ch t)
           \<and> im (STFTOutputFrameTF after ch) band
             = 10 powr (gain_dB rr / 20) * Im (SHframeTF final band ch t))"
proof -
  have fin: "final = fst (encode_slots E M rr inputs outputs nInputs nOutputs isPlaying (TIME_SLOTS M))"
    using assms(1,2,8) by (simp add: process_final_structure)
  have sh: "SHframeTF before = SHframeTF final"
    by (simp add: fin assms(6) encode_slots_SHframeTF)
  have fv: "freqVector before = freqVector rr"
    by (simp add: assms(6) encode_slots_freqVector)
  have Y: "STFTOutputFrameTF after =
      STFTOutputFrameTF (fill_STFTOutputFrameTF M (10 powr (gain_dB rr / 20)) (maxFreq rr) (nSH rr) t before)"
    by (simp add: assms(6,7) encode_slots_Suc inverse_slot_STFTOutputFrameTF)
  have inv: "tempHopFrameTD_out after =
         snd (afSTFTinverse E (hSTFT before) (STFTOutputFrameTF after) (tempHopFrameTD_out before))"
    unfolding Y
    by (simp add: assms(6,7) encode_slots_Suc inverse_slot_tempHopFrameTD_out)
  have gate: "(maxFreq rr \<le> freqVector rr band \<longrightarrow>
           re (STFTOutputFrameTF after ch) band = 0 \<and> im (STFTOutputFrameTF after ch) band = 0)
     \<and> (freqVector rr band < maxFreq rr \<longrightarrow>
           re (STFTOutputFrameTF after ch) band
             = 10 powr (gain_dB rr / 20) * Re (SHframeTF final band ch t)
           \<and> im (STFTOutputFrameTF after ch) band
             = 10 powr (gain_dB rr / 20) * Im (SHframeTF final band ch t))"
    using assms(4,5) by (simp add: Y fill_STFTOutputFrameTF_apply sh fv)
  show ?thesis
    using fin inv gate by blast
qed

theorem process_gates_and_scales_inverse_input_witness:
  "process_guard example_M (process_reinit example_E example_M (example_data\<lparr> gain_dB := 20 \<rparr>)) 1
   \<and> 0 < TIME_SLOTS example_M \<and> 0 < HYBRID_BANDS example_M
   \<and> 0 < nat (nSH (process_reinit example_E example_M (example_data\<lparr> gain_dB := 20 \<rparr>)))
   \<and> freqVector (process_reinit example_E example_M (example_data\<lparr> gain_dB := 20 \<rparr>)) 0
       < maxFreq (process_reinit example_E example_M (example_data\<lparr> gain_dB := 20 \<rparr>))
   \<and> SHframeTF (fst (array2sh_process example_E example_M (example_data\<lparr> gain_dB := 20 \<rparr>)
         (\<lambda>ch i. 1) (\<lambda>ch i. 0) 4 4 1 1)) 0 0 0 = 1
   \<and> re (STFTOutputFrameTF (fst (encode_slots example_E example_M
         (process_reinit example_E example_M (example_data\<lparr> gain_dB := 20 \<rparr>))
         (\<lambda>ch i. 1) (\<lambda>ch i. 0) 4 4 1 (Suc 0))) 0) 0 = 10
   \<and> process_guard example_M
         (process_reinit example_E example_M (example_data\<lparr> gain_dB := 20, maxFreq := 500 \<rparr>)) 1
   \<and> maxFreq (process_reinit example_E example_M (example_data\<lparr> gain_dB := 20, maxFreq := 500 \<rparr>))
       \<le> freqVector (process_reinit example_E example_M
             (example_data\<lparr> gain_dB := 20, maxFreq := 500 \<rparr>)) 0
   \<and> SHframeTF (fst (array2sh_process example_E example_M
         (example_data\<lparr> gain_dB := 20, maxFreq := 500 \<rparr>) (\<lambda>ch i. 1) (\<lambda>ch i. 0) 4 4 1 1)) 0 0 0 = 1
   \<and> re (STFTOutputFrameTF (fst (encode_slots example_E example_M
         (process_reinit example_E example_M (example_data\<lparr> gain_dB := 20, maxFreq := 500 \<rparr>))
         (\<lambda>ch i. 1) (\<lambda>ch i. 0) 4 4 1 (Suc 0))) 0) 0 = 0"
proof -
  define sA where "sA = example_data\<lparr> gain_dB := 20 \<rparr>"
  define sB where "sB = example_data\<lparr> gain_dB := 20, maxFreq := 500 \<rparr>"
  have flagsA: "reinitTFTFLAG sA = 0" "reinitSHTmatrixFLAG sA = 0" "recalcEvalFLAG sA = 0"
    and flagsB: "reinitTFTFLAG sB = 0" "reinitSHTmatrixFLAG sB = 0" "recalcEvalFLAG sB = 0"
    by (simp_all add: sA_def sB_def example_data_def)
  have rA: "process_reinit example_E example_M sA = sA"
    by (rule process_reinit_clean) (simp_all add: flagsA)
  have rB: "process_reinit example_E example_M sB = sB"
    by (rule process_reinit_clean) (simp_all add: flagsB)
  have gA: "process_guard example_M sA 1"
    using example_guard [of sA] by (simp add: flagsA rA)
  have gB: "process_guard example_M sB 1"
    using example_guard [of sB] by (simp add: flagsB rB)
  have fA: "W sA = (\<lambda>band i j. if i = j then 1 else 0)" "Q (arraySpecs sA) = 4" "nSH sA = 4"
    "freqVector sA 0 = 1000" "maxFreq sA = 20000" "gain_dB sA = 20"
    by (simp_all add: sA_def example_data_def)
  have fB: "W sB = (\<lambda>band i j. if i = j then 1 else 0)" "Q (arraySpecs sB) = 4" "nSH sB = 4"
    "freqVector sB 0 = 1000" "maxFreq sB = 500" "gain_dB sB = 20"
    by (simp_all add: sB_def example_data_def)
  have sizes: "0 < TIME_SLOTS example_M" "0 < HYBRID_BANDS example_M"
    by (simp_all add: example_M_sizes)
  note A = process_gates_and_scales_inverse_input [OF rA [symmetric] gA sizes(1) sizes(2) _ refl refl refl,
      where ch = 0 and inputs = "\<lambda>ch i. 1" and outputs = "\<lambda>ch i. 0" and nInputs = 4
        and nOutputs = 4 and isPlaying = 1]
  note B = process_gates_and_scales_inverse_input [OF rB [symmetric] gB sizes(1) sizes(2) _ refl refl refl,
      where ch = 0 and inputs = "\<lambda>ch i. 1" and outputs = "\<lambda>ch i. 0" and nInputs = 4
        and nOutputs = 4 and isPlaying = 1]
  have chA: "0 < nat (nSH sA)" and chB: "0 < nat (nSH sB)" by (simp_all add: fA fB)
  have shA: "SHframeTF (fst (array2sh_process example_E example_M sA (\<lambda>ch i. 1) (\<lambda>ch i. 0) 4 4 1 1)) 0 0 0 = 1"
    using A [OF chA] by (simp add: example_SH_coefficient fA)
  have shB: "SHframeTF (fst (array2sh_process example_E example_M sB (\<lambda>ch i. 1) (\<lambda>ch i. 0) 4 4 1 1)) 0 0 0 = 1"
    using B [OF chB] by (simp add: example_SH_coefficient fB)
  have outA: "re (STFTOutputFrameTF (fst (encode_slots example_E example_M sA
         (\<lambda>ch i. 1) (\<lambda>ch i. 0) 4 4 1 (Suc 0))) 0) 0 = 10"
    using A [OF chA] by (simp add: fA shA)
  have outB: "re (STFTOutputFrameTF (fst (encode_slots example_E example_M sB
         (\<lambda>ch i. 1) (\<lambda>ch i. 0) 4 4 1 (Suc 0))) 0) 0 = 0"
    using B [OF chB] by (simp add: fB)
  have sB_alt: "sA\<lparr> maxFreq := 500 \<rparr> = sB" by (simp add: sA_def sB_def)
  show ?thesis
    using gA gB sizes chA shA outA shB outB
    by (simp add: sA_def [symmetric] sB_alt rA rB fA fB)
qed


section \<open>Normalisation\<close>

text \<open>
  C6. For an order band \<open>n\<close> up to the active order, a channel \<open>ch\<close> with
  \<open>n\<^sup>2 \<le> ch < (n+1)\<^sup>2\<close> and \<open>ch < nOutputs\<close>, and a sample \<open>i\<close> of the frame: the output
  of a call under SN3D is the output of the same call under N3D divided by
  \<open>sqrt (2n+1)\<close>. Under N3D the output of a call that executes the signal path is the
  channel-ordered output, unchanged. The active order is at most \<^verbatim>\<open>MAX_SH_ORDER\<close>, the
  extent of the table \<^verbatim>\<open>o\<close>.
\<close>

theorem SN3D_is_N3D_divided:
  assumes "order (process_reinit E M s) \<le> int (MAX_SH_ORDER M)"
    and "int n \<le> order (process_reinit E M s)"
    and "n * n \<le> ch" and "ch < (n + 1) * (n + 1)" and "int ch < nOutputs"
    and "i < FRAME_SIZE M"
  shows "snd (array2sh_process E M (s\<lparr> norm' := NORM_SN3D \<rparr>)
               inputs outputs nInputs nOutputs nSamples isPlaying) ch i
         = snd (array2sh_process E M (s\<lparr> norm' := NORM_N3D \<rparr>)
               inputs outputs nInputs nOutputs nSamples isPlaying) ch i / sqrt (2 * real n + 1)
       \<and> (process_guard M (process_reinit E M s) nSamples \<longrightarrow>
            snd (array2sh_process E M (s\<lparr> norm' := NORM_N3D \<rparr>)
               inputs outputs nInputs nOutputs nSamples isPlaying)
            = snd (encode_frame E M (process_reinit E M s) inputs outputs nInputs nOutputs isPlaying))"
proof (cases "process_guard M (process_reinit E M s) nSamples")
  case True
  have n3d: "snd (array2sh_process E M (s\<lparr> norm' := NORM_N3D \<rparr>)
               inputs outputs nInputs nOutputs nSamples isPlaying)
         = snd (encode_frame E M (process_reinit E M s) inputs outputs nInputs nOutputs isPlaying)"
    by (simp add: process_output_by_norm [OF True] apply_norm_def)
  have "snd (array2sh_process E M (s\<lparr> norm' := NORM_SN3D \<rparr>)
               inputs outputs nInputs nOutputs nSamples isPlaying) ch
      = divide_frame M (sqrt (2 * real n + 1))
          (snd (encode_frame E M (process_reinit E M s) inputs outputs nInputs nOutputs isPlaying) ch)"
    unfolding process_output_by_norm [OF True]
    by (rule apply_norm_SN3D_band [OF assms(1,2,3,4,5)])
  then show ?thesis using assms(6) by (simp add: n3d divide_frame_def)
next
  case False
  have silent: "snd (array2sh_process E M (s\<lparr> norm' := x \<rparr>)
               inputs outputs nInputs nOutputs nSamples isPlaying) = silence M nOutputs outputs" for x
  proof -
    have "\<not> process_guard M (process_reinit E M (s\<lparr> norm' := x \<rparr>)) nSamples"
      using False by (simp add: norm_reinit norm_guard)
    then show ?thesis by (simp add: process_silent)
  qed
  have "ch < nat nOutputs" using assms(5) by linarith
  then show ?thesis using False assms(6) by (simp add: silent silence_apply)
qed

theorem SN3D_is_N3D_divided_witness:
  "order (process_reinit example_E example_M example_data) \<le> int (MAX_SH_ORDER example_M)
   \<and> int 1 \<le> order (process_reinit example_E example_M example_data)
   \<and> (1::nat) * 1 \<le> 2 \<and> (2::nat) < (1 + 1) * (1 + 1) \<and> int 2 < 4
   \<and> 0 < FRAME_SIZE example_M
   \<and> process_guard example_M (process_reinit example_E example_M example_data) 1
   \<and> snd (array2sh_process example_E example_M (example_data\<lparr> norm' := NORM_SN3D \<rparr>)
               (\<lambda>ch i. 1) (\<lambda>ch i. 0) 4 4 1 1) 2 0
         = snd (array2sh_process example_E example_M (example_data\<lparr> norm' := NORM_N3D \<rparr>)
               (\<lambda>ch i. 1) (\<lambda>ch i. 0) 4 4 1 1) 2 0 / sqrt (2 * real 1 + 1)
   \<and> snd (array2sh_process example_E example_M (example_data\<lparr> norm' := NORM_N3D \<rparr>)
               (\<lambda>ch i. 1) (\<lambda>ch i. 0) 4 4 1 1)
         = snd (encode_frame example_E example_M
                  (process_reinit example_E example_M example_data) (\<lambda>ch i. 1) (\<lambda>ch i. 0) 4 4 1)"
proof -
  have flags: "reinitTFTFLAG example_data = 0" "reinitSHTmatrixFLAG example_data = 0"
    "recalcEvalFLAG example_data = 0"
    by (simp_all add: example_data_def)
  have g: "process_guard example_M (process_reinit example_E example_M example_data) 1"
    by (rule example_guard) (simp_all add: flags)
  have rr: "process_reinit example_E example_M example_data = example_data"
    by (rule process_reinit_clean) (simp_all add: flags)
  have o1: "order (process_reinit example_E example_M example_data) \<le> int (MAX_SH_ORDER example_M)"
    by (simp add: rr) (simp add: example_data_def example_M_def)
  have o2: "int 1 \<le> order (process_reinit example_E example_M example_data)"
    by (simp add: rr) (simp add: example_data_def)
  have c1: "(1::nat) * 1 \<le> 2" by simp
  have c2: "(2::nat) < (1 + 1) * (1 + 1)" by simp
  have c3: "int 2 < 4" by simp
  have f: "0 < FRAME_SIZE example_M" by (simp add: FRAME_SIZE_def example_M_def)
  show ?thesis
    using SN3D_is_N3D_divided [OF o1 o2 c1 c2 c3 f, where inputs = "\<lambda>ch i. 1"
        and outputs = "\<lambda>ch i. 0" and nInputs = 4 and nSamples = 1 and isPlaying = 1]
      g o1 o2 f
    by simp
qed


section \<open>FuMa channel ordering\<close>

text \<open>
  C3. The claim: under FuMa ordering the remap is applied iff the order is 1 and there
  are at least four outputs, and otherwise channels 1 to 3 are silent. The FuMa branch
  has no \<^verbatim>\<open>else\<close>: with fewer than four outputs it writes nothing, so the channels keep
  what the buffer held. At order 1 with three outputs and a buffer of ones, channels 1
  and 2 come out as \<open>1 / sqrt 3\<close> (the SN3D division of the old content), not as silence.
\<close>

theorem FuMa_branch_without_four_outputs:
  "order (example_data\<lparr> chOrdering := CH_FUMA \<rparr>) = 1
   \<and> snd (array2sh_process example_E example_M (example_data\<lparr> chOrdering := CH_FUMA \<rparr>)
          (\<lambda>ch i. 1) (\<lambda>ch i. 1) 4 3 1 1) 1 0 = 1 / sqrt 3
   \<and> snd (array2sh_process example_E example_M (example_data\<lparr> chOrdering := CH_FUMA \<rparr>)
          (\<lambda>ch i. 1) (\<lambda>ch i. 1) 4 3 1 1) 2 0 = 1 / sqrt 3"
proof -
  define s where "s = example_data\<lparr> chOrdering := CH_FUMA \<rparr>"
  have flags: "reinitTFTFLAG s = 0" "reinitSHTmatrixFLAG s = 0" "recalcEvalFLAG s = 0"
    by (simp_all add: s_def example_data_def)
  have rr: "process_reinit example_E example_M s = s"
    by (rule process_reinit_clean) (simp_all add: flags)
  have g: "process_guard example_M (process_reinit example_E example_M s) 1"
    by (rule example_guard) (simp_all add: flags)
  have f: "chOrdering s = CH_FUMA" "order s = 1"
    by (simp_all add: s_def example_data_def)
  have sn: "s\<lparr> norm' := NORM_SN3D \<rparr> = example_data\<lparr> chOrdering := CH_FUMA \<rparr>"
    by (simp add: s_def example_data_def)
  have out: "snd (array2sh_process example_E example_M (example_data\<lparr> chOrdering := CH_FUMA \<rparr>)
          (\<lambda>ch i. 1) (\<lambda>ch i. 1) 4 3 1 1)
      = apply_norm example_M NORM_SN3D 1 3 (\<lambda>ch i. 1)"
    using process_output_by_norm [OF g, of NORM_SN3D "\<lambda>ch i. 1" "\<lambda>ch i. 1" 4 3 1]
    by (simp add: sn rr f encode_frame_FUMA_few)
  have "apply_norm example_M NORM_SN3D 1 3 (\<lambda>ch i. 1) ch =
      divide_frame example_M (sqrt (2 * real 1 + 1)) ((\<lambda>ch i. 1) ch)" if "ch = 1 \<or> ch = 2" for ch
    by (rule apply_norm_SN3D_band) (use that in \<open>auto simp: example_M_sizes\<close>)
  then show ?thesis
    by (simp add: out divide_frame_def example_M_sizes) (simp add: example_data_def)
qed

text \<open>
  Nor does the branch read the order: after \<^verbatim>\<open>array2sh_setEncodingOrder\<close> has staged
  order 2 under FuMa ordering, the call makes order 2 active and still remaps (output
  channel 2 is inverse-transformed channel 1).
\<close>

lemma FuMa_remap_at_order_2:
  "order (process_reinit example_E example_M (array2sh_setEncodingOrder
       (example_data\<lparr> chOrdering := CH_FUMA, norm' := NORM_N3D \<rparr>) 2)) = 2
   \<and> snd (array2sh_process example_E example_M (array2sh_setEncodingOrder
            (example_data\<lparr> chOrdering := CH_FUMA, norm' := NORM_N3D \<rparr>) 2)
          (\<lambda>ch i. 1) (\<lambda>ch i. 1) 4 4 1 1) 2 0
     = tempHopFrameTD_out (fst (array2sh_process example_E example_M (array2sh_setEncodingOrder
            (example_data\<lparr> chOrdering := CH_FUMA, norm' := NORM_N3D \<rparr>) 2)
          (\<lambda>ch i. 1) (\<lambda>ch i. 1) 4 4 1 1)) 1 0"
proof -
  define s where "s = array2sh_setEncodingOrder
       (example_data\<lparr> chOrdering := CH_FUMA, norm' := NORM_N3D \<rparr>) 2"
  define rr where "rr = process_reinit example_E example_M s"
  have nine: "order2nSH 2 = 9" by (simp add: order2nSH_def int32_def)
  have s: "reinitTFTFLAG s = 1" "reinitSHTmatrixFLAG s = 1" "recalcEvalFLAG s = 0"
    "chOrdering s = CH_FUMA" "norm' s = NORM_N3D" "new_order s = 2" "new_nSH s = 9"
    by (simp_all add: s_def array2sh_setEncodingOrder_def Let_def ENCODING_ORDER_FIRST_def nine
        example_data_def)
  have rr: "order rr = 2" "nSH rr = 9" "chOrdering rr = CH_FUMA" "norm' rr = NORM_N3D"
    by (simp_all add: rr_def process_reinit_def reinitTFT_step_def reinitSHTmatrix_step_def
        array2sh_initTFT_def array2sh_calculate_sht_matrix_def array2sh_calculate_mag_curves_def
        Let_def example_M_sizes s)
  have g: "process_guard example_M rr 1"
    unfolding rr_def
    by (simp add: process_guard_reinit reinit_settles_def example_M_sizes s)
  have run: "array2sh_process example_E example_M s (\<lambda>ch i. 1) (\<lambda>ch i. 1) 4 4 1 1 =
      encode_frame example_E example_M rr (\<lambda>ch i. 1) (\<lambda>ch i. 1) 4 4 1"
    using process_runs [OF g [unfolded rr_def]] by (simp add: rr_def [symmetric] signal_path_N3D rr)
  have "snd (encode_frame example_E example_M rr (\<lambda>ch i. 1) (\<lambda>ch i. 1) 4 4 1) 2 0 =
      tempHopFrameTD_out (fst (encode_frame example_E example_M rr (\<lambda>ch i. 1) (\<lambda>ch i. 1) 4 4 1)) 1 0"
    by (subst encode_frame_single_slot_out)
       (simp_all add: example_M_sizes rr copy_to_outputs_FUMA_remap)
  then show ?thesis
    using rr(1) by (simp add: run s_def [symmetric] rr_def [symmetric])
qed


text \<open>
  C4. The claim: every output channel from \<open>min nSH nOutputs\<close> on is zero, whatever the
  ordering and normalisation. The ACN branch clears those channels; the FuMa branch does
  not. With \<open>nSH = 4\<close>, five outputs and a buffer of ones, channel 4 still holds 1.
\<close>

theorem FuMa_branch_beyond_four_outputs:
  "nSH (example_data\<lparr> chOrdering := CH_FUMA \<rparr>) = 4
   \<and> snd (array2sh_process example_E example_M (example_data\<lparr> chOrdering := CH_FUMA \<rparr>)
          (\<lambda>ch i. 1) (\<lambda>ch i. 1) 4 5 1 1) 4 0 = 1"
proof -
  define s where "s = example_data\<lparr> chOrdering := CH_FUMA \<rparr>"
  have flags: "reinitTFTFLAG s = 0" "reinitSHTmatrixFLAG s = 0" "recalcEvalFLAG s = 0"
    by (simp_all add: s_def example_data_def)
  have rr: "process_reinit example_E example_M s = s"
    by (rule process_reinit_clean) (simp_all add: flags)
  have g: "process_guard example_M (process_reinit example_E example_M s) 1"
    by (rule example_guard) (simp_all add: flags)
  have f: "chOrdering s = CH_FUMA" "order s = 1"
    by (simp_all add: s_def example_data_def)
  have sn: "s\<lparr> norm' := NORM_SN3D \<rparr> = example_data\<lparr> chOrdering := CH_FUMA \<rparr>"
    by (simp add: s_def example_data_def)
  have "snd (array2sh_process example_E example_M (example_data\<lparr> chOrdering := CH_FUMA \<rparr>)
          (\<lambda>ch i. 1) (\<lambda>ch i. 1) 4 5 1 1) 4
      = snd (encode_frame example_E example_M s (\<lambda>ch i. 1) (\<lambda>ch i. 1) 4 5 1) 4"
    using process_output_by_norm [OF g, of NORM_SN3D "\<lambda>ch i. 1" "\<lambda>ch i. 1" 4 5 1]
    by (simp add: sn rr f apply_norm_SN3D_beyond example_M_sizes)
  then show ?thesis
    by (simp add: encode_frame_FUMA_beyond f) (simp add: example_data_def)
qed


end
